theory Spec2Isabelle
  imports Main
begin

section \<open>Python values\<close>

text \<open>
  The bot is a Python program (\<^verbatim>\<open>src/bot.py\<close>). Its integers are unbounded and are
  modelled by \<^typ>\<open>int\<close>; its strings are modelled by \<^typ>\<open>string\<close>. The exceptions
  that the modelled code can meet are values of \<open>py_error\<close>.
\<close>

datatype py_error = KeyError | Forbidden

section \<open>Levels\<close>

text \<open>
  \<^verbatim>\<open>LEVEL_THRESHOLDS = {1: 0, 2: 100, 3: 500, 4: 1200, 5: 2200,
                      6: 3500, 7: 5100, 8: 7000, 9: 9200, 10: 11700}\<close>
  The dictionary literal is kept as the list of its items; \<open>map_of\<close> is the lookup.
\<close>

definition LEVEL_THRESHOLDS :: "(int \<times> int) list" where
  "LEVEL_THRESHOLDS =
     [(1, 0), (2, 100), (3, 500), (4, 1200), (5, 2200),
      (6, 3500), (7, 5100), (8, 7000), (9, 9200), (10, 11700)]"

text \<open>
  \<^verbatim>\<open>def calculate_level(self, xp):
      for level in range(10, 0, -1):
          if xp >= LEVEL_THRESHOLDS[level]:
              return level
      return 1\<close>
  The loop runs over the levels it is given; a subscript with a missing key raises
  \<open>KeyError\<close>, which is a branch of the loop.
\<close>

fun calculate_level_loop :: "int list \<Rightarrow> int \<Rightarrow> py_error + int" where
  "calculate_level_loop [] xp = Inr 1"
| "calculate_level_loop (level # rest) xp =
     (case map_of LEVEL_THRESHOLDS level of
        None \<Rightarrow> Inl KeyError
      | Some threshold \<Rightarrow>
          if xp \<ge> threshold then Inr level else calculate_level_loop rest xp)"

definition calculate_level_result :: "int \<Rightarrow> py_error + int" where
  "calculate_level_result xp = calculate_level_loop [10, 9, 8, 7, 6, 5, 4, 3, 2, 1] xp"

text \<open>
  The callers use the returned level as a plain integer. \<open>calculate_level\<close> is the value
  of \<open>calculate_level_result\<close>; the \<open>KeyError\<close> branch is never taken
  (lemma \<open>calculate_level_cases\<close> below), so its value here is immaterial.
\<close>

definition calculate_level :: "int \<Rightarrow> int" where
  "calculate_level xp = (case calculate_level_result xp of Inr level \<Rightarrow> level | Inl _ \<Rightarrow> 1)"

section \<open>Strings\<close>

text \<open>
  \<^verbatim>\<open>s.startswith(p)\<close>, \<^verbatim>\<open>sub in s\<close> and \<^verbatim>\<open>s.lower()\<close>. Role names are
  treated as ASCII text: \<open>lower\<close> maps the letters A to Z and leaves every other
  character as it is.
\<close>

fun startswith :: "string \<Rightarrow> string \<Rightarrow> bool" where
  "startswith s [] = True"
| "startswith [] (p # ps) = False"
| "startswith (c # s) (p # ps) = (c = p \<and> startswith s ps)"

fun contains :: "string \<Rightarrow> string \<Rightarrow> bool" where
  "contains [] sub = (sub = [])"
| "contains (c # s) sub = (startswith (c # s) sub \<or> contains s sub)"

definition lower_char :: "char \<Rightarrow> char" where
  "lower_char c =
     (case map_of (zip ''ABCDEFGHIJKLMNOPQRSTUVWXYZ'' ''abcdefghijklmnopqrstuvwxyz'') c of
        Some l \<Rightarrow> l
      | None \<Rightarrow> c)"

definition lower :: "string \<Rightarrow> string" where
  "lower s = map lower_char s"

text \<open>\<^verbatim>\<open>str(n)\<close> and the \<^verbatim>\<open>{n}\<close> of an f-string: the decimal numeral of an integer.\<close>

definition digit_char :: "nat \<Rightarrow> char" where
  "digit_char d = ''0123456789'' ! d"

function str_nat :: "nat \<Rightarrow> string" where
  "str_nat n = (if n < 10 then [digit_char n] else str_nat (n div 10) @ [digit_char (n mod 10)])"
  by pat_completeness auto
termination
  by (relation "measure id") auto

declare str_nat.simps [simp del]

definition str_int :: "int \<Rightarrow> string" where
  "str_int i = (if i < 0 then CHR ''-'' # str_nat (nat (- i)) else str_nat (nat i))"

text \<open>\<^verbatim>\<open>role.name.startswith("Level ")\<close>: the test the bot uses for a level role.\<close>

definition level_role_name :: "int \<Rightarrow> string" where
  "level_role_name lvl = ''Level '' @ str_int lvl"

section \<open>The platform\<close>

text \<open>
  The chat platform is seen through the library's cache: \<^verbatim>\<open>bot.get_guild(id)\<close>,
  \<^verbatim>\<open>guild.get_member(id)\<close>, \<^verbatim>\<open>guild.roles\<close>, \<^verbatim>\<open>member.roles\<close>. A lookup returns an
  object, returns \<^verbatim>\<open>None\<close>, or raises; the bot wraps its reads in \<^verbatim>\<open>try/except\<close>, so
  all three outcomes are values here. Role operations (\<^verbatim>\<open>add_roles\<close>,
  \<^verbatim>\<open>remove_roles\<close>, \<^verbatim>\<open>create_role\<close>) raise \<^verbatim>\<open>discord.Forbidden\<close> when the bot lacks
  the permission to manage roles, and otherwise take effect on the role state at once.
\<close>

record role =
  role_id :: int
  role_name :: string

datatype 'a lookup = Raises | NotFound | Found 'a

record guild =
  guild_roles :: "role list"
  get_member :: "int \<Rightarrow> role list lookup"
  bot_can_manage_roles :: bool
  text_channels :: "(int \<times> bool) list"

definition is_level_role :: "role \<Rightarrow> bool" where
  "is_level_role r = startswith (role_name r) ''Level ''"

definition member_roles :: "guild \<Rightarrow> int \<Rightarrow> role list" where
  "member_roles g user_id = (case get_member g user_id of Found rs \<Rightarrow> rs | _ \<Rightarrow> [])"

text \<open>\<^verbatim>\<open>discord.utils.get(guild.roles, name=n)\<close>: the first role of that name, or None.\<close>

definition get_role_by_name :: "role list \<Rightarrow> string \<Rightarrow> role option" where
  "get_role_by_name rs n = find (\<lambda>r. role_name r = n) rs"

text \<open>\<^verbatim>\<open>role in member.roles\<close>: roles compare by id.\<close>

definition role_in :: "role \<Rightarrow> role list \<Rightarrow> bool" where
  "role_in r rs = (role_id r \<in> set (map role_id rs))"

definition set_member_roles :: "guild \<Rightarrow> int \<Rightarrow> role list \<Rightarrow> guild" where
  "set_member_roles g user_id rs = g\<lparr>get_member := (get_member g)(user_id := Found rs)\<rparr>"

definition remove_roles :: "guild \<Rightarrow> int \<Rightarrow> role \<Rightarrow> py_error option \<times> guild" where
  "remove_roles g user_id r =
     (if \<not> bot_can_manage_roles g then (Some Forbidden, g)
      else (None, set_member_roles g user_id
                    (filter (\<lambda>x. role_id x \<noteq> role_id r) (member_roles g user_id))))"

definition add_roles :: "guild \<Rightarrow> int \<Rightarrow> role \<Rightarrow> py_error option \<times> guild" where
  "add_roles g user_id r =
     (if \<not> bot_can_manage_roles g then (Some Forbidden, g)
      else if role_in r (member_roles g user_id) then (None, g)
      else (None, set_member_roles g user_id (member_roles g user_id @ [r])))"

text \<open>A created role gets an id that no role of the guild has and is listed after the
  existing roles.\<close>

definition fresh_role_id :: "guild \<Rightarrow> int" where
  "fresh_role_id g = fold max (map role_id (guild_roles g)) 0 + 1"

definition create_role :: "guild \<Rightarrow> string \<Rightarrow> py_error option \<times> guild" where
  "create_role g n =
     (if \<not> bot_can_manage_roles g then (Some Forbidden, g)
      else (None, g\<lparr>guild_roles := guild_roles g @ [\<lparr>role_id = fresh_role_id g, role_name = n\<rparr>]\<rparr>))"

text \<open>
  \<^verbatim>\<open>async def create_level_roles(self, guild):
      try:
          for level in range(1, 11):
              role_name = f"Level {level}"
              existing_role = discord.utils.get(guild.roles, name=role_name)
              if not existing_role:
                  await guild.create_role(name=role_name, ...)
      except discord.Forbidden: print(...)
      except Exception as e: print(...)\<close>
\<close>

fun create_level_roles_loop :: "guild \<Rightarrow> int list \<Rightarrow> py_error option \<times> guild" where
  "create_level_roles_loop g [] = (None, g)"
| "create_level_roles_loop g (lvl # rest) =
     (case get_role_by_name (guild_roles g) (level_role_name lvl) of
        Some existing_role \<Rightarrow> create_level_roles_loop g rest
      | None \<Rightarrow>
          (case create_role g (level_role_name lvl) of
             (Some e, g') \<Rightarrow> (Some e, g')
           | (None, g') \<Rightarrow> create_level_roles_loop g' rest))"

definition create_level_roles :: "guild \<Rightarrow> guild" where
  "create_level_roles g = snd (create_level_roles_loop g [1, 2, 3, 4, 5, 6, 7, 8, 9, 10])"

section \<open>The persistent store and the bot's state\<close>

text \<open>
  The SQLite tables \<^verbatim>\<open>users\<close> (unique on user and guild), \<^verbatim>\<open>quests\<close> (keyed by message
  id; \<^verbatim>\<open>completed_users\<close> is a JSON list of user ids, \<^verbatim>\<open>xp_reward\<close> may be NULL),
  \<^verbatim>\<open>streak_role_gains\<close> (rows are only ever inserted) and \<^verbatim>\<open>whitelisted_channels\<close>.
\<close>

record user_data =
  user_xp :: int
  user_level :: int

record quest =
  title :: string
  completed_users :: "int list"
  xp_reward :: "int option"

record streak_role_gain =
  gain_user_id :: int
  gain_guild_id :: int
  gain_role_id :: int
  gain_role_name :: string
  xp_awarded :: int

record database =
  users :: "int \<times> int \<rightharpoonup> user_data"
  quests :: "int \<rightharpoonup> quest"
  streak_role_gains :: "streak_role_gain list"
  whitelisted_channels :: "(int \<times> int \<times> string) list"

text \<open>The notifications the modelled handlers send; each stands for one embed.\<close>

datatype message =
    Welcome int
  | QuestCompleted int string int int int
  | StreakRoleGained int string int int
  | RoleGained int string int int
  | UserNotOptedIn int
  | XPAdded int int int int
  | XPRemoved int int int int

text \<open>
  The state of the bot: the attributes of \<^verbatim>\<open>QuestBot\<close> that the modelled code reads
  (\<^verbatim>\<open>db_connection\<close>, \<^verbatim>\<open>role_xp_assignments\<close>, \<^verbatim>\<open>optin_message_id\<close>), the platform
  behind \<^verbatim>\<open>bot.get_guild\<close>, the tasks handed to \<^verbatim>\<open>asyncio.create_task\<close> that have not
  run yet (each an \<^verbatim>\<open>update_user_level_role(user_id, guild_id, old_level, new_level)\<close>),
  and the messages sent so far, each with the id of its channel.
\<close>

record bot_state =
  db_connection :: "database option"
  role_xp_assignments :: "int \<rightharpoonup> (string \<rightharpoonup> int \<times> string)"
  optin_message_id :: "int option"
  get_guild :: "int \<Rightarrow> guild lookup"
  tasks :: "(int \<times> int \<times> int \<times> int) list"
  sent :: "(int \<times> message) list"

definition put_guild :: "bot_state \<Rightarrow> int \<Rightarrow> guild \<Rightarrow> bot_state" where
  "put_guild s guild_id g = s\<lparr>get_guild := (get_guild s)(guild_id := Found g)\<rparr>"

definition channel_send :: "bot_state \<Rightarrow> int \<Rightarrow> message \<Rightarrow> bot_state" where
  "channel_send s channel_id m = s\<lparr>sent := sent s @ [(channel_id, m)]\<rparr>"

definition create_task :: "bot_state \<Rightarrow> int \<times> int \<times> int \<times> int \<Rightarrow> bot_state" where
  "create_task s t = s\<lparr>tasks := tasks s @ [t]\<rparr>"

section \<open>The ledger\<close>

text \<open>
  \<^verbatim>\<open>def get_user_data(self, user_id, guild_id):
      if not self.db_connection: return {'xp': 0, 'level': 1}
      cursor.execute('SELECT xp, level FROM users WHERE user_id = ? AND guild_id = ?', ...)
      result = cursor.fetchone()
      if result: return {'xp': result[0], 'level': result[1]}
      else:
          cursor.execute('INSERT INTO users (user_id, guild_id, xp, level) VALUES (?, ?, 0, 1)', ...)
          return {'xp': 0, 'level': 1}\<close>
\<close>

definition get_user_data :: "bot_state \<Rightarrow> int \<Rightarrow> int \<Rightarrow> user_data \<times> bot_state" where
  "get_user_data s user_id guild_id =
     (case db_connection s of
        None \<Rightarrow> (\<lparr>user_xp = 0, user_level = 1\<rparr>, s)
      | Some db \<Rightarrow>
          (case users db (user_id, guild_id) of
             Some result \<Rightarrow> (result, s)
           | None \<Rightarrow>
               (\<lparr>user_xp = 0, user_level = 1\<rparr>,
                s\<lparr>db_connection :=
                    Some (db\<lparr>users := (users db)((user_id, guild_id) \<mapsto> \<lparr>user_xp = 0, user_level = 1\<rparr>)\<rparr>)\<rparr>)))"

text \<open>\<^verbatim>\<open>UPDATE users SET xp = ? WHERE user_id = ? AND guild_id = ?\<close> and the same for
  \<^verbatim>\<open>level\<close>: a row that is absent stays absent.\<close>

definition sql_update_users :: "database \<Rightarrow> int \<Rightarrow> int \<Rightarrow> (user_data \<Rightarrow> user_data) \<Rightarrow> database" where
  "sql_update_users db user_id guild_id f =
     (case users db (user_id, guild_id) of
        None \<Rightarrow> db
      | Some row \<Rightarrow> db\<lparr>users := (users db)((user_id, guild_id) \<mapsto> f row)\<rparr>)"

definition execute :: "bot_state \<Rightarrow> (database \<Rightarrow> database) \<Rightarrow> bot_state" where
  "execute s f = (case db_connection s of None \<Rightarrow> s | Some db \<Rightarrow> s\<lparr>db_connection := Some (f db)\<rparr>)"

text \<open>
  \<^verbatim>\<open>def get_role_xp_and_type(self, guild_id, role_id):
      if guild_id not in self.role_xp_assignments: return None
      role_data = self.role_xp_assignments[guild_id].get(role_id)
      if role_data: return role_data["xp"], role_data["type"]
      return None\<close>
  An assignment is the dictionary \<^verbatim>\<open>{"xp": ..., "type": ...}\<close>, kept as a pair.
\<close>

definition get_role_xp_and_type :: "bot_state \<Rightarrow> int \<Rightarrow> string \<Rightarrow> (int \<times> string) option" where
  "get_role_xp_and_type s guild_id rid =
     (case role_xp_assignments s guild_id of
        None \<Rightarrow> None
      | Some assignments \<Rightarrow> assignments rid)"


text \<open>
  \<^verbatim>\<open>def get_accumulated_streak_xp(self, user_id, guild_id):
      if not self.db_connection: return 0
      cursor.execute('SELECT SUM(xp_awarded) FROM streak_role_gains
                      WHERE user_id = ? AND guild_id = ?', ...)
      result = cursor.fetchone()
      return result[0] if result[0] else 0\<close>
  \<^verbatim>\<open>SUM\<close> over no rows is NULL, which the last line turns into 0.
\<close>

definition user_gains :: "database \<Rightarrow> int \<Rightarrow> int \<Rightarrow> streak_role_gain list" where
  "user_gains db user_id guild_id =
     filter (\<lambda>g. gain_user_id g = user_id \<and> gain_guild_id g = guild_id) (streak_role_gains db)"

definition get_accumulated_streak_xp :: "bot_state \<Rightarrow> int \<Rightarrow> int \<Rightarrow> int" where
  "get_accumulated_streak_xp s user_id guild_id =
     (case db_connection s of
        None \<Rightarrow> 0
      | Some db \<Rightarrow>
          (case user_gains db user_id guild_id of
             [] \<Rightarrow> 0
           | rows \<Rightarrow> sum_list (map xp_awarded rows)))"

text \<open>
  \<^verbatim>\<open>def is_user_opted_in(self, user_id, guild_id):
      try:
          guild = bot.get_guild(guild_id)
          if not guild: return False
          member = guild.get_member(user_id)
          if not member: return False
          for role in member.roles:
              if role.name.startswith("Level "): return True
          return False
      except Exception as e: return False\<close>
\<close>

fun has_level_role_loop :: "role list \<Rightarrow> bool" where
  "has_level_role_loop [] = False"
| "has_level_role_loop (r # rest) =
     (if startswith (role_name r) ''Level '' then True else has_level_role_loop rest)"

definition is_user_opted_in :: "bot_state \<Rightarrow> int \<Rightarrow> int \<Rightarrow> bool" where
  "is_user_opted_in s user_id guild_id =
     (case get_guild s guild_id of
        Raises \<Rightarrow> False
      | NotFound \<Rightarrow> False
      | Found g \<Rightarrow>
          (case get_member g user_id of
             Raises \<Rightarrow> False
           | NotFound \<Rightarrow> False
           | Found rs \<Rightarrow> has_level_role_loop rs))"

section \<open>The XP aggregator\<close>

text \<open>
  The two loops of \<^verbatim>\<open>calculate_total_user_xp\<close> over \<^verbatim>\<open>member.roles\<close>, each with
  its accumulator:
  \<^verbatim>\<open>custom_role_xp = 0
  for role in member.roles:
      if role.name.startswith("Level "): continue
      role_xp_data = self.get_role_xp_and_type(guild_id, str(role.id))
      if role_xp_data:
          xp_amount, role_type = role_xp_data
          if role_type != "streak":
              custom_role_xp += xp_amount\<close>
  \<^verbatim>\<open>auto_role_xp = 0
  for role in member.roles:
      if role.name.startswith("Level "): continue
      role_xp_data = self.get_role_xp_and_type(guild_id, str(role.id))
      if not role_xp_data:
          if "badge" in role.name.lower():
              auto_role_xp += 5\<close>
\<close>

fun custom_role_xp_loop :: "bot_state \<Rightarrow> int \<Rightarrow> role list \<Rightarrow> int \<Rightarrow> int" where
  "custom_role_xp_loop s guild_id [] custom_role_xp = custom_role_xp"
| "custom_role_xp_loop s guild_id (r # rest) custom_role_xp =
     (if startswith (role_name r) ''Level '' then custom_role_xp_loop s guild_id rest custom_role_xp
      else
        (case get_role_xp_and_type s guild_id (str_int (role_id r)) of
           Some (xp_amount, role_type) \<Rightarrow>
             if role_type \<noteq> ''streak''
             then custom_role_xp_loop s guild_id rest (custom_role_xp + xp_amount)
             else custom_role_xp_loop s guild_id rest custom_role_xp
         | None \<Rightarrow> custom_role_xp_loop s guild_id rest custom_role_xp))"

fun auto_role_xp_loop :: "bot_state \<Rightarrow> int \<Rightarrow> role list \<Rightarrow> int \<Rightarrow> int" where
  "auto_role_xp_loop s guild_id [] auto_role_xp = auto_role_xp"
| "auto_role_xp_loop s guild_id (r # rest) auto_role_xp =
     (if startswith (role_name r) ''Level '' then auto_role_xp_loop s guild_id rest auto_role_xp
      else
        (case get_role_xp_and_type s guild_id (str_int (role_id r)) of
           None \<Rightarrow>
             if contains (lower (role_name r)) ''badge''
             then auto_role_xp_loop s guild_id rest (auto_role_xp + 5)
             else auto_role_xp_loop s guild_id rest auto_role_xp
         | Some role_xp_data \<Rightarrow> auto_role_xp_loop s guild_id rest auto_role_xp))"

text \<open>
  \<^verbatim>\<open>def calculate_total_user_xp(self, user_id, guild_id):
      try:
          guild = bot.get_guild(guild_id)
          if not guild:
              user_data = self.get_user_data(user_id, guild_id); return user_data.get('xp', 0)
          member = guild.get_member(user_id)
          if not member:
              user_data = self.get_user_data(user_id, guild_id); return user_data.get('xp', 0)
          user_data = self.get_user_data(user_id, guild_id)
          base_xp = user_data.get('xp', 0)
          ... the two loops, accumulated_streak_xp = self.get_accumulated_streak_xp(...) ...
          total_xp = base_xp + custom_role_xp + auto_role_xp + accumulated_streak_xp
          return total_xp
      except Exception as e:
          user_data = self.get_user_data(user_id, guild_id); return user_data.get('xp', 0)\<close>
  The function returns the total together with the state, since \<^verbatim>\<open>get_user_data\<close>
  inserts a missing row.
\<close>

definition base_xp_fallback :: "bot_state \<Rightarrow> int \<Rightarrow> int \<Rightarrow> int \<times> bot_state" where
  "base_xp_fallback s user_id guild_id =
     (case get_user_data s user_id guild_id of (user_data, s') \<Rightarrow> (user_xp user_data, s'))"

definition calculate_total_user_xp :: "bot_state \<Rightarrow> int \<Rightarrow> int \<Rightarrow> int \<times> bot_state" where
  "calculate_total_user_xp s user_id guild_id =
     (case get_guild s guild_id of
        Raises \<Rightarrow> base_xp_fallback s user_id guild_id
      | NotFound \<Rightarrow> base_xp_fallback s user_id guild_id
      | Found g \<Rightarrow>
          (case get_member g user_id of
             Raises \<Rightarrow> base_xp_fallback s user_id guild_id
           | NotFound \<Rightarrow> base_xp_fallback s user_id guild_id
           | Found member_roles_now \<Rightarrow>
               (case get_user_data s user_id guild_id of
                  (user_data, s') \<Rightarrow>
                    let base_xp = user_xp user_data;
                        custom_role_xp = custom_role_xp_loop s' guild_id member_roles_now 0;
                        accumulated_streak_xp = get_accumulated_streak_xp s' user_id guild_id;
                        auto_role_xp = auto_role_xp_loop s' guild_id member_roles_now 0
                    in (base_xp + custom_role_xp + auto_role_xp + accumulated_streak_xp, s'))))"

section \<open>The role synchronizer\<close>

text \<open>
  \<^verbatim>\<open>for role in member.roles:
      if role.name.startswith("Level ") and role.name != f"Level {new_level}":
          removed_roles.append(role.name)
          await member.remove_roles(role, reason=...)\<close>
  An exception leaves the loop; what was removed before it stays removed.
\<close>

fun remove_level_roles_loop ::
  "guild \<Rightarrow> int \<Rightarrow> string \<Rightarrow> role list \<Rightarrow> py_error option \<times> guild" where
  "remove_level_roles_loop g user_id new_role_name [] = (None, g)"
| "remove_level_roles_loop g user_id new_role_name (r # rest) =
     (if startswith (role_name r) ''Level '' \<and> role_name r \<noteq> new_role_name then
        (case remove_roles g user_id r of
           (Some e, g') \<Rightarrow> (Some e, g')
         | (None, g') \<Rightarrow> remove_level_roles_loop g' user_id new_role_name rest)
      else remove_level_roles_loop g user_id new_role_name rest)"

text \<open>
  The body of \<^verbatim>\<open>update_user_level_role\<close> once guild and member are found:
  \<^verbatim>\<open>new_role_name = f"Level {new_level}"
  new_role = discord.utils.get(guild.roles, name=new_role_name)
  if new_role:
      if new_role not in member.roles:
          await member.add_roles(new_role, reason=...)
  else:
      await self.create_level_roles(guild)
      new_role = discord.utils.get(guild.roles, name=new_role_name)
      if new_role:
          await member.add_roles(new_role, reason=...)
  except discord.Forbidden as e: print(...)
  except Exception as e: print(...)\<close>
\<close>

definition sync_level_role :: "guild \<Rightarrow> int \<Rightarrow> int \<Rightarrow> guild" where
  "sync_level_role g user_id new_level =
     (let new_role_name = level_role_name new_level in
      case remove_level_roles_loop g user_id new_role_name (member_roles g user_id) of
        (Some e, g1) \<Rightarrow> g1
      | (None, g1) \<Rightarrow>
          (case get_role_by_name (guild_roles g1) new_role_name of
             Some new_role \<Rightarrow>
               if \<not> role_in new_role (member_roles g1 user_id)
               then snd (add_roles g1 user_id new_role)
               else g1
           | None \<Rightarrow>
               (let g2 = create_level_roles g1 in
                case get_role_by_name (guild_roles g2) new_role_name of
                  Some new_role \<Rightarrow> snd (add_roles g2 user_id new_role)
                | None \<Rightarrow> g2)))"

text \<open>
  \<^verbatim>\<open>async def update_user_level_role(self, user_id, guild_id, old_level, new_level):
      try:
          guild = bot.get_guild(guild_id)
          if not guild: return
          member = guild.get_member(user_id)
          if not member: return
          ...\<close>
\<close>

definition update_user_level_role :: "bot_state \<Rightarrow> int \<Rightarrow> int \<Rightarrow> int \<Rightarrow> int \<Rightarrow> bot_state" where
  "update_user_level_role s user_id guild_id old_level new_level =
     (case get_guild s guild_id of
        Raises \<Rightarrow> s
      | NotFound \<Rightarrow> s
      | Found g \<Rightarrow>
          (case get_member g user_id of
             Raises \<Rightarrow> s
           | NotFound \<Rightarrow> s
           | Found rs \<Rightarrow> put_guild s guild_id (sync_level_role g user_id new_level)))"

text \<open>
  The event loop runs the tasks created by \<^verbatim>\<open>asyncio.create_task\<close> in the order of
  their creation, once the code that created them gives up control.
\<close>

fun run_task_list :: "bot_state \<Rightarrow> (int \<times> int \<times> int \<times> int) list \<Rightarrow> bot_state" where
  "run_task_list s [] = s"
| "run_task_list s ((user_id, guild_id, old_level, new_level) # rest) =
     run_task_list (update_user_level_role s user_id guild_id old_level new_level) rest"

definition run_tasks :: "bot_state \<Rightarrow> bot_state" where
  "run_tasks s = run_task_list (s\<lparr>tasks := []\<rparr>) (tasks s)"

section \<open>The ledger update and the level recompute\<close>

text \<open>
  \<^verbatim>\<open>def update_user_xp(self, user_id, guild_id, xp_change):
      if not self.db_connection: return 0, 1
      current_data = self.get_user_data(user_id, guild_id)
      old_level = current_data['level']
      new_base_xp = max(0, current_data['xp'] + xp_change)
      cursor.execute('UPDATE users SET xp = ? WHERE user_id = ? AND guild_id = ?', ...)
      total_xp = self.calculate_total_user_xp(user_id, guild_id)
      new_level = self.calculate_level(total_xp)
      if old_level != new_level:
          cursor.execute('UPDATE users SET level = ? WHERE user_id = ? AND guild_id = ?', ...)
          asyncio.create_task(self.update_user_level_role(user_id, guild_id, old_level, new_level))
      return total_xp, new_level\<close>
\<close>

definition update_user_xp :: "bot_state \<Rightarrow> int \<Rightarrow> int \<Rightarrow> int \<Rightarrow> (int \<times> int) \<times> bot_state" where
  "update_user_xp s user_id guild_id xp_change =
     (case db_connection s of
        None \<Rightarrow> ((0, 1), s)
      | Some db0 \<Rightarrow>
          (case get_user_data s user_id guild_id of
             (current_data, s1) \<Rightarrow>
               let old_level = user_level current_data;
                   new_base_xp = max 0 (user_xp current_data + xp_change);
                   s2 = execute s1 (\<lambda>db. sql_update_users db user_id guild_id (\<lambda>row. row\<lparr>user_xp := new_base_xp\<rparr>))
               in (case calculate_total_user_xp s2 user_id guild_id of
                     (total_xp, s3) \<Rightarrow>
                       let new_level = calculate_level total_xp in
                       if old_level \<noteq> new_level then
                         ((total_xp, new_level),
                          create_task
                            (execute s3 (\<lambda>db. sql_update_users db user_id guild_id (\<lambda>row. row\<lparr>user_level := new_level\<rparr>)))
                            (user_id, guild_id, old_level, new_level))
                       else ((total_xp, new_level), s3))))"

text \<open>
  \<^verbatim>\<open>async def check_and_update_level_roles(user_id, guild_id, reason="XP change"):
      current_data = quest_bot.get_user_data(user_id, guild_id)
      old_level = current_data['level']
      current_total_xp = quest_bot.calculate_total_user_xp(user_id, guild_id)
      new_level = quest_bot.calculate_level(current_total_xp)
      if old_level != new_level:
          if quest_bot.db_connection:
              cursor.execute('UPDATE users SET level = ? WHERE user_id = ? AND guild_id = ?', ...)
              asyncio.create_task(quest_bot.update_user_level_role(user_id, guild_id, old_level, new_level))
          return old_level, new_level, current_total_xp
      return old_level, old_level, current_total_xp\<close>
  The body is wrapped in \<^verbatim>\<open>try/except\<close> returning \<^verbatim>\<open>1, 1, 0\<close>; the calls it makes
  catch their own exceptions, so that branch is not taken.
\<close>

definition check_and_update_level_roles ::
  "bot_state \<Rightarrow> int \<Rightarrow> int \<Rightarrow> (int \<times> int \<times> int) \<times> bot_state" where
  "check_and_update_level_roles s user_id guild_id =
     (case get_user_data s user_id guild_id of
        (current_data, s1) \<Rightarrow>
          let old_level = user_level current_data in
          (case calculate_total_user_xp s1 user_id guild_id of
             (current_total_xp, s2) \<Rightarrow>
               let new_level = calculate_level current_total_xp in
               if old_level \<noteq> new_level then
                 (case db_connection s2 of
                    Some db \<Rightarrow>
                      ((old_level, new_level, current_total_xp),
                       create_task
                         (execute s2 (\<lambda>db. sql_update_users db user_id guild_id (\<lambda>row. row\<lparr>user_level := new_level\<rparr>)))
                         (user_id, guild_id, old_level, new_level))
                  | None \<Rightarrow> ((old_level, new_level, current_total_xp), s2))
               else ((old_level, old_level, current_total_xp), s2)))"

section \<open>The channel gate\<close>

text \<open>
  \<^verbatim>\<open>def get_whitelisted_channels(self, guild_id):
      if self.db_connection:
          cursor.execute('SELECT channel_id, channel_name FROM whitelisted_channels
                          WHERE guild_id = ?', ...)
          return cursor.fetchall()
      return []\<close>
\<close>

definition get_whitelisted_channels :: "bot_state \<Rightarrow> int \<Rightarrow> (int \<times> string) list" where
  "get_whitelisted_channels s guild_id =
     (case db_connection s of
        Some db \<Rightarrow>
          map (\<lambda>(g, c, n). (c, n)) (filter (\<lambda>(g, c, n). g = guild_id) (whitelisted_channels db))
      | None \<Rightarrow> [])"

text \<open>
  The context of a command: the guild of the message (None in a direct message), the
  channel, whether the author has the \<^verbatim>\<open>manage_guild\<close> permission, and the name of
  the invoked command, if any.
  \<^verbatim>\<open>async def is_channel_whitelisted_check(ctx):
      if ctx.guild is None: return True
      if ctx.author.guild_permissions.manage_guild: return True
      if ctx.command and ctx.command.name == "whitelist": return True
      whitelisted_channels = quest_bot.get_whitelisted_channels(ctx.guild.id)
      if not whitelisted_channels: return True
      whitelisted_channel_ids = [channel_id for channel_id, _ in whitelisted_channels]
      if ctx.channel.id not in whitelisted_channel_ids: return False
      return True\<close>
\<close>

record command_context =
  ctx_guild :: "int option"
  ctx_channel :: int
  author_manage_guild :: bool
  ctx_command :: "string option"


text \<open>
  \<^verbatim>\<open>async def send_whitelisted_message(channel, **kwargs):
      if not hasattr(channel, 'guild') or channel.guild is None:
          return await channel.send(**kwargs)
      whitelisted_channels = quest_bot.get_whitelisted_channels(channel.guild.id)
      if not whitelisted_channels: return await channel.send(**kwargs)
      whitelisted_channel_ids = [channel_id for channel_id, _ in whitelisted_channels]
      if channel.id in whitelisted_channel_ids: return await channel.send(**kwargs)
      return None\<close>
\<close>

definition send_whitelisted_message :: "bot_state \<Rightarrow> int option \<Rightarrow> int \<Rightarrow> message \<Rightarrow> bot_state" where
  "send_whitelisted_message s channel_guild channel_id m =
     (case channel_guild of
        None \<Rightarrow> channel_send s channel_id m
      | Some guild_id \<Rightarrow>
          (let whitelisted = get_whitelisted_channels s guild_id in
           if whitelisted = [] then channel_send s channel_id m
           else if channel_id \<in> set (map fst whitelisted) then channel_send s channel_id m
           else s))"


section \<open>The event reactor\<close>

text \<open>
  A reaction event: the reacting user, the emoji, and the message reacted to with its
  guild and channel. \<open>check_mark\<close> is the white-heavy-check-mark emoji (its UTF-8 bytes).
\<close>

record reaction_event =
  reactor_id :: int
  reactor_is_bot :: bool
  emoji :: string
  message_id :: int
  message_guild_id :: int
  message_channel_id :: int

definition check_mark :: string where
  "check_mark = [CHR 0xE2, CHR 0x9C, CHR 0x85]"

text \<open>
  The opt-in branch once a role named \<^verbatim>\<open>"Level 1"\<close> is at hand; the source has this
  code twice, for a role that existed and for one just created:
  \<^verbatim>\<open>await member.add_roles(level_1_role, reason="Opted into QuestBot system")
  if quest_bot.db_connection:
      db_cursor.execute('INSERT OR IGNORE INTO users (user_id, guild_id, xp, level)
                         VALUES (?, ?, 0, 1)', (user.id, guild.id))
  await send_whitelisted_message(reaction.message.channel, embed=confirmation_embed, ...)
  except discord.Forbidden: print(...)
  except Exception as e: print(...)\<close>
\<close>

definition insert_or_ignore_user :: "database \<Rightarrow> int \<Rightarrow> int \<Rightarrow> database" where
  "insert_or_ignore_user db user_id guild_id =
     (case users db (user_id, guild_id) of
        Some row \<Rightarrow> db
      | None \<Rightarrow> db\<lparr>users := (users db)((user_id, guild_id) \<mapsto> \<lparr>user_xp = 0, user_level = 1\<rparr>)\<rparr>)"

definition grant_level_1 :: "bot_state \<Rightarrow> guild \<Rightarrow> reaction_event \<Rightarrow> role \<Rightarrow> bot_state" where
  "grant_level_1 s g ev level_1_role =
     (case add_roles g (reactor_id ev) level_1_role of
        (Some e, g') \<Rightarrow> put_guild s (message_guild_id ev) g'
      | (None, g') \<Rightarrow>
          (let s1 = put_guild s (message_guild_id ev) g';
               s2 = execute s1 (\<lambda>db. insert_or_ignore_user db (reactor_id ev) (message_guild_id ev))
           in send_whitelisted_message s2 (Some (message_guild_id ev)) (message_channel_id ev)
                (Welcome (reactor_id ev))))"

text \<open>
  \<^verbatim>\<open>guild = reaction.message.guild
  member = guild.get_member(user.id)
  if not member: return
  has_level_role = any(role.name.startswith("Level ") for role in member.roles)
  if not has_level_role:
      level_1_role = discord.utils.get(guild.roles, name="Level 1")
      if level_1_role: ... grant ...
      else:
          await quest_bot.create_level_roles(guild)
          level_1_role = discord.utils.get(guild.roles, name="Level 1")
          if level_1_role: ... grant ...
  else: print("... already has a level role - skipping opt-in")
  except Exception as e: print(...)\<close>
  A guild that is not found is \<^verbatim>\<open>None\<close>, on which \<^verbatim>\<open>get_member\<close> raises; the outer
  \<^verbatim>\<open>except\<close> catches that like every other exception.
\<close>

definition optin_reaction :: "bot_state \<Rightarrow> reaction_event \<Rightarrow> bot_state" where
  "optin_reaction s ev =
     (case get_guild s (message_guild_id ev) of
        Raises \<Rightarrow> s
      | NotFound \<Rightarrow> s
      | Found g \<Rightarrow>
          (case get_member g (reactor_id ev) of
             Raises \<Rightarrow> s
           | NotFound \<Rightarrow> s
           | Found rs \<Rightarrow>
               (let has_level_role = list_ex (\<lambda>r. startswith (role_name r) ''Level '') rs in
                if \<not> has_level_role then
                  (case get_role_by_name (guild_roles g) ''Level 1'' of
                     Some level_1_role \<Rightarrow> grant_level_1 s g ev level_1_role
                   | None \<Rightarrow>
                       (let g1 = create_level_roles g in
                        case get_role_by_name (guild_roles g1) ''Level 1'' of
                          Some level_1_role \<Rightarrow> grant_level_1 s g1 ev level_1_role
                        | None \<Rightarrow> put_guild s (message_guild_id ev) g1))
                else s)))"

text \<open>
  The quest branch:
  \<^verbatim>\<open>if not quest_bot.db_connection: return
  cursor.execute('SELECT title, completed_users, xp_reward FROM quests WHERE message_id = ?', ...)
  quest_data = cursor.fetchone()
  if quest_data:
      if not quest_bot.is_user_opted_in(user.id, reaction.message.guild.id): return
      title, completed_users_json, xp_reward = quest_data
      if xp_reward is None: xp_reward = 50
      completed_users = json.loads(completed_users_json)
      if user.id not in completed_users:
          new_xp, new_level = quest_bot.update_user_xp(user.id, reaction.message.guild.id, xp_reward)
          completed_users.append(user.id)
          cursor.execute('UPDATE quests SET completed_users = ? WHERE message_id = ?', ...)
          await send_whitelisted_message(reaction.message.channel, embed=embed, delete_after=10)\<close>
\<close>

definition sql_update_quest_completed :: "database \<Rightarrow> int \<Rightarrow> int list \<Rightarrow> database" where
  "sql_update_quest_completed db mid completed =
     (case quests db mid of
        None \<Rightarrow> db
      | Some q \<Rightarrow> db\<lparr>quests := (quests db)(mid \<mapsto> q\<lparr>completed_users := completed\<rparr>)\<rparr>)"

definition quest_reaction :: "bot_state \<Rightarrow> reaction_event \<Rightarrow> bot_state" where
  "quest_reaction s ev =
     (case db_connection s of
        None \<Rightarrow> s
      | Some db \<Rightarrow>
          (case quests db (message_id ev) of
             None \<Rightarrow> s
           | Some quest_data \<Rightarrow>
               if \<not> is_user_opted_in s (reactor_id ev) (message_guild_id ev) then s
               else
                 (let reward = (case xp_reward quest_data of None \<Rightarrow> 50 | Some r \<Rightarrow> r);
                      completed = completed_users quest_data
                  in if reactor_id ev \<notin> set completed then
                       (case update_user_xp s (reactor_id ev) (message_guild_id ev) reward of
                          ((new_xp, new_level), s1) \<Rightarrow>
                            (let s2 = execute s1 (\<lambda>db. sql_update_quest_completed db (message_id ev)
                                                         (completed @ [reactor_id ev]))
                             in send_whitelisted_message s2 (Some (message_guild_id ev))
                                  (message_channel_id ev)
                                  (QuestCompleted (reactor_id ev) (title quest_data) reward new_xp new_level)))
                     else s)))"

text \<open>
  \<^verbatim>\<open>async def on_reaction_add(reaction, user):
      if user.bot: return
      if str(reaction.emoji) == check mark:
          if quest_bot.optin_message_id and reaction.message.id == quest_bot.optin_message_id:
              ... opt-in branch ...
              return
          ... quest branch ...\<close>
  The first operand of the \<^verbatim>\<open>and\<close> is falsy for None and for 0.
\<close>

definition is_optin_message :: "bot_state \<Rightarrow> reaction_event \<Rightarrow> bool" where
  "is_optin_message s ev =
     (case optin_message_id s of None \<Rightarrow> False | Some m \<Rightarrow> m \<noteq> 0 \<and> message_id ev = m)"

definition on_reaction_add :: "bot_state \<Rightarrow> reaction_event \<Rightarrow> bot_state" where
  "on_reaction_add s ev =
     (if reactor_is_bot ev then s
      else if emoji ev = check_mark then
        (if is_optin_message s ev then optin_reaction s ev else quest_reaction s ev)
      else s)"

text \<open>
  A member update: the guild, the member, and the member's roles before and after.
  \<^verbatim>\<open>added_roles = set(after.roles) - set(before.roles)\<close>; roles hash and compare by
  id, so a role is added once however often the list names it. The added roles are
  visited in the order of \<^verbatim>\<open>after.roles\<close>.
\<close>

record member_update =
  update_guild_id :: int
  update_user_id :: int
  before_roles :: "role list"
  after_roles :: "role list"



text \<open>
  \<^verbatim>\<open>for channel in after.guild.text_channels:
      if hasattr(channel, 'send') and channel.permissions_for(after.guild.me).send_messages:
          await channel.send(embed=embed, delete_after=15)
          break\<close>
  Each text channel carries whether the bot may send to it.
\<close>

definition notify_first_channel :: "bot_state \<Rightarrow> int \<Rightarrow> message \<Rightarrow> bot_state" where
  "notify_first_channel s guild_id m =
     (case get_guild s guild_id of
        Found g \<Rightarrow>
          (case find (\<lambda>(c, can_send). can_send) (text_channels g) of
             Some (c, can_send) \<Rightarrow> channel_send s c m
           | None \<Rightarrow> s)
      | _ \<Rightarrow> s)"



section \<open>Administrative XP commands\<close>

text \<open>
  \<^verbatim>\<open>async def add_xp_command(ctx, amount: int, member: discord.Member):
      if not quest_bot.is_user_opted_in(member.id, ctx.guild.id):
          await ctx.send(embed=... "User Not Opted In" ...); return
      new_total_xp, new_level = quest_bot.update_user_xp(member.id, ctx.guild.id, amount)
      await ctx.send(embed=... "XP Added" ...)\<close>
  and \<^verbatim>\<open>remove_xp_command\<close>, which calls \<^verbatim>\<open>update_user_xp(member.id, ctx.guild.id, -amount)\<close>.
  The commands are given the guild and the channel of their context.
\<close>

definition add_xp_command :: "bot_state \<Rightarrow> int \<Rightarrow> int \<Rightarrow> int \<Rightarrow> int \<Rightarrow> bot_state" where
  "add_xp_command s guild_id channel_id amount member_id =
     (if \<not> is_user_opted_in s member_id guild_id
      then channel_send s channel_id (UserNotOptedIn member_id)
      else
        (case update_user_xp s member_id guild_id amount of
           ((new_total_xp, new_level), s1) \<Rightarrow>
             channel_send s1 channel_id (XPAdded member_id amount new_total_xp new_level)))"

definition remove_xp_command :: "bot_state \<Rightarrow> int \<Rightarrow> int \<Rightarrow> int \<Rightarrow> int \<Rightarrow> bot_state" where
  "remove_xp_command s guild_id channel_id amount member_id =
     (if \<not> is_user_opted_in s member_id guild_id
      then channel_send s channel_id (UserNotOptedIn member_id)
      else
        (case update_user_xp s member_id guild_id (- amount) of
           ((new_total_xp, new_level), s1) \<Rightarrow>
             channel_send s1 channel_id (XPRemoved member_id amount new_total_xp new_level)))"

section \<open>Observations used in the statements\<close>

text \<open>
  The row of the ledger as the bot reads it: the stored row, or the default row that
  \<open>get_user_data\<close> inserts when none is stored.
\<close>

definition ledger_row :: "database \<Rightarrow> int \<Rightarrow> int \<Rightarrow> user_data" where
  "ledger_row db user_id guild_id =
     (case users db (user_id, guild_id) of
        Some row \<Rightarrow> row
      | None \<Rightarrow> \<lparr>user_xp = 0, user_level = 1\<rparr>)"

definition stored_row :: "bot_state \<Rightarrow> int \<Rightarrow> int \<Rightarrow> user_data option" where
  "stored_row s user_id guild_id =
     (case db_connection s of None \<Rightarrow> None | Some db \<Rightarrow> users db (user_id, guild_id))"

definition base_xp :: "bot_state \<Rightarrow> int \<Rightarrow> int \<Rightarrow> int" where
  "base_xp s user_id guild_id = user_xp (fst (get_user_data s user_id guild_id))"

definition cached_level :: "bot_state \<Rightarrow> int \<Rightarrow> int \<Rightarrow> int" where
  "cached_level s user_id guild_id = user_level (fst (get_user_data s user_id guild_id))"

text \<open>Live role membership cannot be read: the guild or the member is not found, or
  the lookup raises.\<close>

definition roles_unreadable :: "bot_state \<Rightarrow> int \<Rightarrow> int \<Rightarrow> bool" where
  "roles_unreadable s user_id guild_id =
     (case get_guild s guild_id of
        Found g \<Rightarrow> (case get_member g user_id of Found rs \<Rightarrow> False | _ \<Rightarrow> True)
      | _ \<Rightarrow> True)"

section \<open>The total XP as the specification words it\<close>

text \<open>
  The accumulated streak XP is the sum of the logged gains of the user. A role carries
  an explicit Badge (Streak) assignment when the assignment table of the guild has an
  entry for its id with type \<^verbatim>\<open>"badge"\<close> (\<^verbatim>\<open>"streak"\<close>); the administrative commands
  store no other type, which \<open>valid_role_types\<close> records.
\<close>

definition logged_streak_xp :: "bot_state \<Rightarrow> int \<Rightarrow> int \<Rightarrow> int" where
  "logged_streak_xp s user_id guild_id =
     (case db_connection s of
        None \<Rightarrow> 0
      | Some db \<Rightarrow> sum_list (map xp_awarded (user_gains db user_id guild_id)))"

definition assignment_of :: "bot_state \<Rightarrow> int \<Rightarrow> role \<Rightarrow> (int \<times> string) option" where
  "assignment_of s guild_id r = get_role_xp_and_type s guild_id (str_int (role_id r))"

definition has_assignment_of_type :: "bot_state \<Rightarrow> int \<Rightarrow> string \<Rightarrow> role \<Rightarrow> bool" where
  "has_assignment_of_type s guild_id ty r =
     (case assignment_of s guild_id r of Some (x, t) \<Rightarrow> t = ty | None \<Rightarrow> False)"

definition assigned_xp :: "bot_state \<Rightarrow> int \<Rightarrow> role \<Rightarrow> int" where
  "assigned_xp s guild_id r =
     (case assignment_of s guild_id r of Some (x, t) \<Rightarrow> x | None \<Rightarrow> 0)"



section \<open>The channel gate as the specification words it\<close>



definition whitelist_table :: "bot_state \<Rightarrow> (int \<times> int \<times> string) list option" where
  "whitelist_table s = map_option whitelisted_channels (db_connection s)"

definition quests_table :: "bot_state \<Rightarrow> (int \<rightharpoonup> quest) option" where
  "quests_table s = map_option quests (db_connection s)"

definition gains_table :: "bot_state \<Rightarrow> streak_role_gain list option" where
  "gains_table s = map_option streak_role_gains (db_connection s)"

section \<open>Histories of member updates\<close>




section \<open>Consistent role state\<close>

text \<open>
  The platform keeps role ids unique within a guild, and a member holds roles of the
  guild, each once. \<open>unique_role_names\<close> says in addition that no two roles of the
  guild share a name (the platform does not enforce this). A role is a stale level
  role for a target name when it is a level role with another name; \<open>held_level_roles\<close>
  are the level roles a user holds.
\<close>

definition member_roles_consistent :: "guild \<Rightarrow> int \<Rightarrow> bool" where
  "member_roles_consistent gd u =
     (distinct (map role_id (guild_roles gd))
      \<and> distinct (member_roles gd u)
      \<and> set (member_roles gd u) \<subseteq> set (guild_roles gd))"

definition unique_role_names :: "guild \<Rightarrow> bool" where
  "unique_role_names gd = distinct (map role_name (guild_roles gd))"

definition stale_level_role :: "string \<Rightarrow> role \<Rightarrow> bool" where
  "stale_level_role keep r = (startswith (role_name r) ''Level '' \<and> role_name r \<noteq> keep)"

definition held_roles :: "bot_state \<Rightarrow> int \<Rightarrow> int \<Rightarrow> role list" where
  "held_roles s guild_id user_id =
     (case get_guild s guild_id of Found gd \<Rightarrow> member_roles gd user_id | _ \<Rightarrow> [])"

definition held_level_roles :: "bot_state \<Rightarrow> int \<Rightarrow> int \<Rightarrow> role list" where
  "held_level_roles s guild_id user_id = filter is_level_role (held_roles s guild_id user_id)"

section \<open>Completed operations\<close>

text \<open>
  An operation has completed when the handler has returned and the level task it
  scheduled, if any, has run. \<open>completed_ledger_update\<close> is the state after
  \<open>update_user_xp\<close> (quest completion, manual adjustment) has completed,
  \<open>completed_level_recompute\<close> the state after \<open>check_and_update_level_roles\<close> (role
  gain) has.
\<close>

definition completed_ledger_update :: "bot_state \<Rightarrow> int \<Rightarrow> int \<Rightarrow> int \<Rightarrow> bot_state" where
  "completed_ledger_update s user_id guild_id xp_change =
     run_tasks (snd (update_user_xp s user_id guild_id xp_change))"

definition completed_level_recompute :: "bot_state \<Rightarrow> int \<Rightarrow> int \<Rightarrow> bot_state" where
  "completed_level_recompute s user_id guild_id =
     run_tasks (snd (check_and_update_level_roles s user_id guild_id))"

definition total_xp :: "bot_state \<Rightarrow> int \<Rightarrow> int \<Rightarrow> int" where
  "total_xp s user_id guild_id = fst (calculate_total_user_xp s user_id guild_id)"

section \<open>An example community\<close>

text \<open>
  A small community used to evaluate the definitions: guild 1 has the roles
  \<^verbatim>\<open>@everyone\<close>, \<^verbatim>\<open>Level 1\<close>, \<^verbatim>\<open>Level 2\<close>, \<^verbatim>\<open>Gold Badge\<close> (assigned 20 XP as a badge),
  \<^verbatim>\<open>Helper badge\<close> (no assignment) and \<^verbatim>\<open>Daily Streak\<close> (assigned 10 XP as a streak).
  User 7 has opted in and holds all of them but \<^verbatim>\<open>Level 2\<close>; user 8 holds only
  \<^verbatim>\<open>@everyone\<close>; the lookup of user 9 raises. Guild 3 cannot be read. The ledger has
  60 XP at level 1 for user 7, quest 500 is worth 50 XP, and one streak gain of 10 XP is
  logged for user 7.
\<close>

definition everyone_role :: role where
  "everyone_role = \<lparr>role_id = 1, role_name = ''@everyone''\<rparr>"

definition level_1_role :: role where
  "level_1_role = \<lparr>role_id = 11, role_name = ''Level 1''\<rparr>"

definition level_2_role :: role where
  "level_2_role = \<lparr>role_id = 12, role_name = ''Level 2''\<rparr>"

definition gold_badge_role :: role where
  "gold_badge_role = \<lparr>role_id = 30, role_name = ''Gold Badge''\<rparr>"

definition helper_badge_role :: role where
  "helper_badge_role = \<lparr>role_id = 31, role_name = ''Helper badge''\<rparr>"

definition daily_streak_role :: role where
  "daily_streak_role = \<lparr>role_id = 40, role_name = ''Daily Streak''\<rparr>"

definition example_guild :: guild where
  "example_guild =
     \<lparr>guild_roles = [everyone_role, level_1_role, level_2_role, gold_badge_role,
                      helper_badge_role, daily_streak_role],
      get_member = (\<lambda>_. NotFound)
        (7 := Found [everyone_role, level_1_role, gold_badge_role, helper_badge_role, daily_streak_role],
         8 := Found [everyone_role],
         9 := Raises),
      bot_can_manage_roles = True,
      text_channels = [(100, True), (101, True)]\<rparr>"

definition example_db :: database where
  "example_db =
     \<lparr>users = [(7, 1) \<mapsto> \<lparr>user_xp = 60, user_level = 1\<rparr>],
      quests = [500 \<mapsto> \<lparr>title = ''First quest'', completed_users = [], xp_reward = Some 50\<rparr>],
      streak_role_gains =
        [\<lparr>gain_user_id = 7, gain_guild_id = 1, gain_role_id = 40,
          gain_role_name = ''Daily Streak'', xp_awarded = 10\<rparr>],
      whitelisted_channels = []\<rparr>"

definition example_state :: bot_state where
  "example_state =
     \<lparr>db_connection = Some example_db,
      role_xp_assignments = [1 \<mapsto> [''30'' \<mapsto> (20, ''badge''), ''40'' \<mapsto> (10, ''streak'')]],
      optin_message_id = Some 900,
      get_guild = (\<lambda>_. NotFound)(1 := Found example_guild, 3 := Raises),
      tasks = [],
      sent = []\<rparr>"

definition example_reaction :: reaction_event where
  "example_reaction =
     \<lparr>reactor_id = 7, reactor_is_bot = False, emoji = check_mark,
      message_id = 500, message_guild_id = 1, message_channel_id = 100\<rparr>"

text \<open>
  The same community with channel 101 whitelisted; a moderator without the
  \<^verbatim>\<open>manage_guild\<close> permission invoking the \<^verbatim>\<open>whitelist\<close> command in channel 100; and
  the update of user 7 on gaining the \<^verbatim>\<open>Gold Badge\<close> role.
\<close>

definition whitelisted_state :: bot_state where
  "whitelisted_state =
     example_state\<lparr>db_connection :=
       Some (example_db\<lparr>whitelisted_channels := [(1, 101, ''quests'')]\<rparr>)\<rparr>"

definition moderator_context :: command_context where
  "moderator_context =
     \<lparr>ctx_guild = Some 1, ctx_channel = 100, author_manage_guild = False,
      ctx_command = Some ''whitelist''\<rparr>"

definition gold_badge_gain :: member_update where
  "gold_badge_gain =
     \<lparr>update_guild_id = 1, update_user_id = 7,
      before_roles = [everyone_role, level_1_role, helper_badge_role, daily_streak_role],
      after_roles = [everyone_role, level_1_role, gold_badge_role, helper_badge_role,
                     daily_streak_role]\<rparr>"

text \<open>
  User 7 gaining the \<^verbatim>\<open>Daily Streak\<close> role (three such gains form a history), and user
  8, who holds no level role, gaining it.
\<close>

definition daily_streak_gain :: member_update where
  "daily_streak_gain =
     \<lparr>update_guild_id = 1, update_user_id = 7,
      before_roles = [everyone_role, level_1_role, gold_badge_role, helper_badge_role],
      after_roles = [everyone_role, level_1_role, gold_badge_role, helper_badge_role,
                     daily_streak_role]\<rparr>"

definition three_streak_gains :: "((int \<Rightarrow> guild lookup) \<times> member_update) list" where
  "three_streak_gains =
     [(get_guild example_state, daily_streak_gain),
      (get_guild example_state, daily_streak_gain),
      (get_guild example_state, daily_streak_gain)]"

definition newcomer_state :: bot_state where
  "newcomer_state =
     put_guild example_state 1
       (set_member_roles example_guild 8 [everyone_role, daily_streak_role])"

definition newcomer_streak_gain :: member_update where
  "newcomer_streak_gain =
     \<lparr>update_guild_id = 1, update_user_id = 8,
      before_roles = [everyone_role],
      after_roles = [everyone_role, daily_streak_role]\<rparr>"

text \<open>
  A returning user. User 7 once reached level 2 with a badge role (the ledger keeps
  60 XP and level 2), then lost the badge role and the level role; role removals are
  not recomputed. The user opts in again and then completes quest 500.
\<close>

definition returning_state :: bot_state where
  "returning_state =
     example_state
       \<lparr>db_connection := Some (example_db\<lparr>users := [(7, 1) \<mapsto> \<lparr>user_xp = 60, user_level = 2\<rparr>],
                                          streak_role_gains := []\<rparr>),
        get_guild := (\<lambda>_. NotFound)(1 := Found (set_member_roles example_guild 7 [everyone_role]))\<rparr>"

definition returning_after_optin :: bot_state where
  "returning_after_optin =
     run_tasks (on_reaction_add returning_state (example_reaction\<lparr>message_id := 900\<rparr>))"

definition returning_after_quest :: bot_state where
  "returning_after_quest = run_tasks (on_reaction_add returning_after_optin example_reaction)"

section \<open>Properties of the level function\<close>

lemma calculate_level_cases:
  "calculate_level_result xp = Inr
     (if xp \<ge> 11700 then 10 else if xp \<ge> 9200 then 9 else if xp \<ge> 7000 then 8
      else if xp \<ge> 5100 then 7 else if xp \<ge> 3500 then 6 else if xp \<ge> 2200 then 5
      else if xp \<ge> 1200 then 4 else if xp \<ge> 500 then 3 else if xp \<ge> 100 then 2 else 1)"
  by (simp add: calculate_level_result_def LEVEL_THRESHOLDS_def)

lemma calculate_level_no_error: "calculate_level_result xp = Inr (calculate_level xp)"
  by (simp add: calculate_level_def calculate_level_cases)

lemma calculate_level_upper:
  "(l, t) \<in> set LEVEL_THRESHOLDS \<Longrightarrow> t \<le> xp \<Longrightarrow> l \<le> calculate_level xp"
  by (auto simp add: calculate_level_def calculate_level_cases LEVEL_THRESHOLDS_def)

lemma calculate_level_qualifies:
  "0 \<le> xp \<Longrightarrow> \<exists>t. (calculate_level xp, t) \<in> set LEVEL_THRESHOLDS \<and> t \<le> xp"
  by (auto simp add: calculate_level_def calculate_level_cases LEVEL_THRESHOLDS_def)

lemma calculate_level_negative: "xp < 0 \<Longrightarrow> calculate_level xp = 1"
  by (simp add: calculate_level_def calculate_level_cases)

lemma calculate_level_range: "1 \<le> calculate_level xp \<and> calculate_level xp \<le> 10"
  by (simp add: calculate_level_def calculate_level_cases)

lemma LEVEL_THRESHOLDS_shape:
  "map fst LEVEL_THRESHOLDS = [1, 2, 3, 4, 5, 6, 7, 8, 9, 10]
   \<and> sorted_wrt (<) (map snd LEVEL_THRESHOLDS)
   \<and> map_of LEVEL_THRESHOLDS 1 = Some 0"
  by (simp add: LEVEL_THRESHOLDS_def)

text \<open>
  Claim C5. The threshold table has ten entries, for the levels 1 to 10, with strictly
  ascending thresholds and threshold 0 for level 1. For every integer \<open>xp\<close>,
  \<open>calculate_level\<close> returns without a \<open>KeyError\<close>; the level it returns is at least
  every level whose threshold is at most \<open>xp\<close>; when some threshold is at most \<open>xp\<close>
  (that is, when \<open>xp\<close> is not negative) the returned level is itself a level of the table
  whose threshold is at most \<open>xp\<close>, hence the highest such level; and when no threshold
  qualifies the result is level 1.
\<close>

theorem calculate_level_highest_qualifying:
  "length LEVEL_THRESHOLDS = 10
   \<and> map fst LEVEL_THRESHOLDS = [1, 2, 3, 4, 5, 6, 7, 8, 9, 10]
   \<and> sorted_wrt (<) (map snd LEVEL_THRESHOLDS)
   \<and> map_of LEVEL_THRESHOLDS 1 = Some 0
   \<and> calculate_level_result xp = Inr (calculate_level xp)
   \<and> (\<forall>l t. (l, t) \<in> set LEVEL_THRESHOLDS \<and> t \<le> xp \<longrightarrow> l \<le> calculate_level xp)
   \<and> ((\<exists>l t. (l, t) \<in> set LEVEL_THRESHOLDS \<and> t \<le> xp)
        \<longrightarrow> (\<exists>t. (calculate_level xp, t) \<in> set LEVEL_THRESHOLDS \<and> t \<le> xp))
   \<and> ((\<forall>l t. (l, t) \<in> set LEVEL_THRESHOLDS \<longrightarrow> \<not> t \<le> xp) \<longrightarrow> calculate_level xp = 1)"
proof -
  have shape: "length LEVEL_THRESHOLDS = 10" "map fst LEVEL_THRESHOLDS = [1, 2, 3, 4, 5, 6, 7, 8, 9, 10]"
    "sorted_wrt (<) (map snd LEVEL_THRESHOLDS)" "map_of LEVEL_THRESHOLDS 1 = Some 0"
    using LEVEL_THRESHOLDS_shape by (simp_all add: LEVEL_THRESHOLDS_def)
  have nonneg: "0 \<le> xp" if "(l, t) \<in> set LEVEL_THRESHOLDS" "t \<le> xp" for l t
    using that by (auto simp add: LEVEL_THRESHOLDS_def)
  have first: "(1, 0) \<in> set LEVEL_THRESHOLDS"
    by (simp add: LEVEL_THRESHOLDS_def)
  have neg: "xp < 0" if "\<forall>l t. (l, t) \<in> set LEVEL_THRESHOLDS \<longrightarrow> \<not> t \<le> xp"
    using that first by fastforce
  show ?thesis
    using shape calculate_level_no_error calculate_level_upper
      calculate_level_qualifies nonneg calculate_level_negative neg
    by blast
qed

theorem calculate_level_highest_qualifying_witness:
  "calculate_level 600 = 3 \<and> calculate_level_result 600 = Inr 3
   \<and> (3, 500) \<in> set LEVEL_THRESHOLDS \<and> (500::int) \<le> 600"
proof -
  have m: "(3, 500) \<in> set LEVEL_THRESHOLDS"
    by (simp add: LEVEL_THRESHOLDS_def)
  note inst = calculate_level_highest_qualifying [of 600]
  from inst have "\<forall>l t. (l, t) \<in> set LEVEL_THRESHOLDS \<and> t \<le> 600 \<longrightarrow> l \<le> calculate_level 600"
    by blast
  then have "(3, 500) \<in> set LEVEL_THRESHOLDS \<and> (500::int) \<le> 600 \<longrightarrow> 3 \<le> calculate_level 600"
    by blast
  with m have lower: "3 \<le> calculate_level 600"
    by simp
  from inst have res: "calculate_level_result 600 = Inr (calculate_level 600)"
    by simp
  from inst m have ex: "\<exists>t. (calculate_level 600, t) \<in> set LEVEL_THRESHOLDS \<and> t \<le> 600"
    by fastforce
  from ex have "calculate_level 600 \<le> 3"
    by (auto simp add: LEVEL_THRESHOLDS_def)
  with lower res m show ?thesis
    by simp
qed

section \<open>How the primitive operations change the state\<close>

lemma execute_fields [simp]:
  "db_connection (execute s f) = map_option f (db_connection s)"
  "get_guild (execute s f) = get_guild s"
  "role_xp_assignments (execute s f) = role_xp_assignments s"
  "optin_message_id (execute s f) = optin_message_id s"
  "tasks (execute s f) = tasks s"
  "sent (execute s f) = sent s"
  by (simp_all add: execute_def split: option.splits)

lemma create_task_fields [simp]:
  "db_connection (create_task s t) = db_connection s"
  "get_guild (create_task s t) = get_guild s"
  "role_xp_assignments (create_task s t) = role_xp_assignments s"
  "optin_message_id (create_task s t) = optin_message_id s"
  "tasks (create_task s t) = tasks s @ [t]"
  "sent (create_task s t) = sent s"
  by (simp_all add: create_task_def)

lemma channel_send_fields [simp]:
  "db_connection (channel_send s c m) = db_connection s"
  "get_guild (channel_send s c m) = get_guild s"
  "role_xp_assignments (channel_send s c m) = role_xp_assignments s"
  "optin_message_id (channel_send s c m) = optin_message_id s"
  "tasks (channel_send s c m) = tasks s"
  "sent (channel_send s c m) = sent s @ [(c, m)]"
  by (simp_all add: channel_send_def)

lemma put_guild_fields [simp]:
  "db_connection (put_guild s gid g) = db_connection s"
  "get_guild (put_guild s gid g) = (get_guild s)(gid := Found g)"
  "role_xp_assignments (put_guild s gid g) = role_xp_assignments s"
  "optin_message_id (put_guild s gid g) = optin_message_id s"
  "tasks (put_guild s gid g) = tasks s"
  "sent (put_guild s gid g) = sent s"
  by (simp_all add: put_guild_def)

lemma put_guild_same: "get_guild s gid = Found g \<Longrightarrow> put_guild s gid g = s"
  by (simp add: put_guild_def fun_upd_idem)

lemma execute_id: "execute s (\<lambda>db. db) = s"
  by (simp add: execute_def split: option.splits)

lemma get_user_data_fst:
  "fst (get_user_data s u g) =
     (case db_connection s of
        None \<Rightarrow> \<lparr>user_xp = 0, user_level = 1\<rparr>
      | Some db \<Rightarrow> ledger_row db u g)"
  by (simp add: get_user_data_def ledger_row_def split: option.splits)

lemma get_user_data_snd:
  "snd (get_user_data s u g) = execute s (\<lambda>db. insert_or_ignore_user db u g)"
  by (simp add: get_user_data_def execute_def insert_or_ignore_user_def split: option.splits)

lemma insert_or_ignore_user_row [simp]:
  "ledger_row (insert_or_ignore_user db u g) u g = ledger_row db u g"
  "users (insert_or_ignore_user db u g) (u, g) = Some (ledger_row db u g)"
  by (simp_all add: insert_or_ignore_user_def ledger_row_def split: option.splits)

lemma insert_or_ignore_user_tables [simp]:
  "quests (insert_or_ignore_user db u g) = quests db"
  "streak_role_gains (insert_or_ignore_user db u g) = streak_role_gains db"
  "whitelisted_channels (insert_or_ignore_user db u g) = whitelisted_channels db"
  by (simp_all add: insert_or_ignore_user_def split: option.splits)

lemma sql_update_users_tables [simp]:
  "quests (sql_update_users db u g f) = quests db"
  "streak_role_gains (sql_update_users db u g f) = streak_role_gains db"
  "whitelisted_channels (sql_update_users db u g f) = whitelisted_channels db"
  by (simp_all add: sql_update_users_def split: option.splits)

lemma sql_update_users_row:
  "users (sql_update_users db u g f) (u, g) = map_option f (users db (u, g))"
  by (simp add: sql_update_users_def split: option.splits)

lemma calculate_total_user_xp_snd:
  "snd (calculate_total_user_xp s u g) = execute s (\<lambda>db. insert_or_ignore_user db u g)"
  by (simp add: calculate_total_user_xp_def base_xp_fallback_def Let_def get_user_data_snd [symmetric]
      split: lookup.splits prod.splits)

lemma is_user_opted_in_cong:
  "get_guild s' = get_guild s \<Longrightarrow> is_user_opted_in s' u g = is_user_opted_in s u g"
  by (simp add: is_user_opted_in_def)

lemma roles_unreadable_not_opted_in:
  "roles_unreadable s u g \<Longrightarrow> \<not> is_user_opted_in s u g"
  by (simp add: roles_unreadable_def is_user_opted_in_def split: lookup.splits)

lemma ledger_row_sql_update_users:
  "ledger_row (sql_update_users db u g f) u g =
     (case users db (u, g) of None \<Rightarrow> \<lparr>user_xp = 0, user_level = 1\<rparr> | Some row \<Rightarrow> f row)"
  by (simp add: sql_update_users_def ledger_row_def split: option.splits)

lemma execute_execute: "execute (execute s f) h = execute s (\<lambda>db. h (f db))"
  by (simp add: execute_def split: option.splits)

section \<open>Evaluating the example\<close>

lemmas example_defs =
  example_state_def example_db_def example_guild_def example_reaction_def
  everyone_role_def level_1_role_def level_2_role_def gold_badge_role_def
  helper_badge_role_def daily_streak_role_def whitelisted_state_def moderator_context_def
  gold_badge_gain_def daily_streak_gain_def three_streak_gains_def newcomer_state_def
  newcomer_streak_gain_def put_guild_def set_member_roles_def returning_state_def

lemmas string_defs =
  str_int_def str_nat.simps digit_char_def lower_def lower_char_def level_role_name_def check_mark_def

lemmas aggregator_defs =
  calculate_total_user_xp_def base_xp_fallback_def get_user_data_def get_role_xp_and_type_def
  get_accumulated_streak_xp_def user_gains_def calculate_level_def calculate_level_result_def
  LEVEL_THRESHOLDS_def execute_def sql_update_users_def

section \<open>The ledger update\<close>

lemma update_user_xp_row:
  assumes "db_connection s = Some db"
  shows "stored_row (snd (update_user_xp s u g c)) u g =
           Some ((ledger_row db u g)\<lparr>user_xp := max 0 (user_xp (ledger_row db u g) + c),
                   user_level := snd (fst (update_user_xp s u g c))\<rparr>)"
  using assms
  by (simp add: update_user_xp_def stored_row_def Let_def split_beta get_user_data_fst
      get_user_data_snd calculate_total_user_xp_snd sql_update_users_row
      ledger_row_sql_update_users)

lemma base_xp_connected:
  "db_connection s = Some db \<Longrightarrow> base_xp s u g = user_xp (ledger_row db u g)"
  by (simp add: base_xp_def get_user_data_fst)

lemma base_xp_stored:
  "stored_row s u g = Some row \<Longrightarrow> base_xp s u g = user_xp row"
  by (auto simp add: base_xp_def get_user_data_fst stored_row_def ledger_row_def
      split: option.splits)

lemma update_user_xp_base_xp:
  assumes "db_connection s = Some db"
  shows "base_xp (snd (update_user_xp s u g c)) u g = max 0 (base_xp s u g + c)"
  using update_user_xp_row [OF assms, of u g c] base_xp_connected [OF assms, of u g]
  by (simp add: base_xp_stored)



lemma example_state_user_7:
  "db_connection example_state = Some example_db"
  "base_xp example_state 7 1 = 60"
  "is_user_opted_in example_state 7 1"
  by (simp_all add: example_defs base_xp_def get_user_data_def is_user_opted_in_def)


section \<open>Unreadable role state\<close>




lemma example_state_unreadable:
  "roles_unreadable example_state 7 3"
  "roles_unreadable example_state 9 1"
  "roles_unreadable example_state 7 2"
  "roles_unreadable example_state 10 1"
  by (simp_all add: roles_unreadable_def example_defs)


lemma on_reaction_add_unreadable:
  assumes "roles_unreadable s (reactor_id ev) (message_guild_id ev)"
  shows "on_reaction_add s ev = s"
proof -
  have optin: "optin_reaction s ev = s"
    using assms by (simp add: optin_reaction_def roles_unreadable_def split: lookup.splits)
  have quest_branch: "quest_reaction s ev = s"
    using roles_unreadable_not_opted_in [OF assms]
    by (simp add: quest_reaction_def split: option.splits)
  show ?thesis
    by (simp add: on_reaction_add_def optin quest_branch)
qed

text \<open>
  Claim C10. When the guild or the member cannot be resolved, or a lookup raises,
  \<open>is_user_opted_in\<close> is False. Then a reaction of that user changes nothing at all (a
  quest completion is not credited), and \<open>add_xp_command\<close> and \<open>remove_xp_command\<close>
  for that user only send the not-opted-in notice: the store, the role state and the
  scheduled tasks stay as they were.
\<close>

theorem unreadable_roles_reject_as_not_opted_in:
  assumes "roles_unreadable s u g"
  shows "\<not> is_user_opted_in s u g
       \<and> (reactor_id ev = u \<and> message_guild_id ev = g \<longrightarrow> on_reaction_add s ev = s)
       \<and> add_xp_command s g ch amount u = channel_send s ch (UserNotOptedIn u)
       \<and> remove_xp_command s g ch amount u = channel_send s ch (UserNotOptedIn u)
       \<and> db_connection (add_xp_command s g ch amount u) = db_connection s
       \<and> db_connection (remove_xp_command s g ch amount u) = db_connection s"
  using roles_unreadable_not_opted_in [OF assms] on_reaction_add_unreadable [of s ev] assms
  by (auto simp add: add_xp_command_def remove_xp_command_def)

theorem unreadable_roles_reject_as_not_opted_in_witness:
  "roles_unreadable example_state 9 1
   \<and> is_user_opted_in example_state 9 1 = False
   \<and> on_reaction_add example_state (example_reaction\<lparr>reactor_id := 9\<rparr>) = example_state
   \<and> sent (add_xp_command example_state 1 100 25 9) = [(100, UserNotOptedIn 9)]
   \<and> db_connection (add_xp_command example_state 1 100 25 9) = Some example_db"
proof -
  note inst = unreadable_roles_reject_as_not_opted_in
      [of example_state 9 1 "example_reaction\<lparr>reactor_id := 9\<rparr>" 100 25]
  have ev: "reactor_id (example_reaction\<lparr>reactor_id := 9\<rparr>) = 9"
    "message_guild_id (example_reaction\<lparr>reactor_id := 9\<rparr>) = 1"
    by (simp_all add: example_defs)
  have "sent example_state = []" "db_connection example_state = Some example_db"
    by (simp_all add: example_defs)
  with inst ev example_state_unreadable show ?thesis
    by simp
qed

section \<open>The XP aggregator\<close>

lemma get_role_xp_and_type_execute [simp]:
  "get_role_xp_and_type (execute s f) g k = get_role_xp_and_type s g k"
  by (simp add: get_role_xp_and_type_def)

lemma custom_role_xp_loop_sum:
  "custom_role_xp_loop s g rs acc =
     acc + sum_list (map (assigned_xp s g)
             (filter (\<lambda>r. \<not> is_level_role r \<and> \<not> has_assignment_of_type s g ''streak'' r) rs))"
proof (induction rs arbitrary: acc)
  case Nil
  show ?case by simp
next
  case (Cons r rs)
  show ?case
  proof (cases "assignment_of s g r")
    case None
    then show ?thesis
      using Cons.IH
      by (simp add: is_level_role_def has_assignment_of_type_def assigned_xp_def assignment_of_def)
  next
    case (Some a)
    then show ?thesis
      using Cons.IH
      by (cases a)
        (simp add: is_level_role_def has_assignment_of_type_def assigned_xp_def assignment_of_def)
  qed
qed

lemma auto_role_xp_loop_count:
  "auto_role_xp_loop s g rs acc =
     acc + 5 * int (length
             (filter (\<lambda>r. \<not> is_level_role r \<and> contains (lower (role_name r)) ''badge''
                           \<and> assignment_of s g r = None) rs))"
proof (induction rs arbitrary: acc)
  case Nil
  show ?case by simp
next
  case (Cons r rs)
  show ?case
    using Cons.IH
    by (cases "assignment_of s g r")
      (simp_all add: is_level_role_def assignment_of_def)
qed

lemma loops_ignore_store:
  "custom_role_xp_loop (execute s f) g rs acc = custom_role_xp_loop s g rs acc"
  "auto_role_xp_loop (execute s f) g rs acc = auto_role_xp_loop s g rs acc"
  by (induction rs arbitrary: acc) (simp_all split: option.splits)

lemma get_accumulated_streak_xp_logged:
  "get_accumulated_streak_xp s u g = logged_streak_xp s u g"
  by (simp add: get_accumulated_streak_xp_def logged_streak_xp_def split: option.splits list.splits)

lemma logged_streak_xp_insert_user [simp]:
  "logged_streak_xp (execute s (\<lambda>db. insert_or_ignore_user db u' g')) u g = logged_streak_xp s u g"
  by (simp add: logged_streak_xp_def user_gains_def split: option.splits)

lemma calculate_total_user_xp_readable:
  assumes "get_guild s g = Found gd" and "get_member gd u = Found held"
  shows "fst (calculate_total_user_xp s u g) =
           base_xp s u g
           + custom_role_xp_loop s g held 0
           + auto_role_xp_loop s g held 0
           + logged_streak_xp s u g"
  using assms
  by (simp add: calculate_total_user_xp_def split_beta Let_def get_user_data_snd base_xp_def
      loops_ignore_store get_accumulated_streak_xp_logged)


lemma unassigned_xp_zero: "assignment_of s g r = None \<Longrightarrow> assigned_xp s g r = 0"
  by (simp add: assigned_xp_def)



lemma filter_filter_implied:
  "(\<And>x. P x \<Longrightarrow> Q x) \<Longrightarrow> filter P (filter Q xs) = filter P xs"
  by (induction xs) auto



lemma example_state_readable:
  "get_guild example_state 1 = Found example_guild"
  "get_member example_guild 7 =
     Found [everyone_role, level_1_role, gold_badge_role, helper_badge_role, daily_streak_role]"
  by (simp_all add: example_defs)




section \<open>What the ledger update and the level recompute leave alone\<close>

lemma sql_update_quest_completed_tables [simp]:
  "users (sql_update_quest_completed db m c) = users db"
  "streak_role_gains (sql_update_quest_completed db m c) = streak_role_gains db"
  "whitelisted_channels (sql_update_quest_completed db m c) = whitelisted_channels db"
  by (simp_all add: sql_update_quest_completed_def split: option.splits)

lemma update_user_xp_frame:
  "get_guild (snd (update_user_xp s u g c)) = get_guild s"
  "sent (snd (update_user_xp s u g c)) = sent s"
  "role_xp_assignments (snd (update_user_xp s u g c)) = role_xp_assignments s"
  "optin_message_id (snd (update_user_xp s u g c)) = optin_message_id s"
  "whitelist_table (snd (update_user_xp s u g c)) = whitelist_table s"
  "quests_table (snd (update_user_xp s u g c)) = quests_table s"
  "gains_table (snd (update_user_xp s u g c)) = gains_table s"
  by (simp_all add: update_user_xp_def split_beta Let_def get_user_data_snd
      calculate_total_user_xp_snd whitelist_table_def quests_table_def gains_table_def
      option.map_comp comp_def split: option.splits)

lemma check_and_update_level_roles_frame:
  "get_guild (snd (check_and_update_level_roles s u g)) = get_guild s"
  "sent (snd (check_and_update_level_roles s u g)) = sent s"
  "role_xp_assignments (snd (check_and_update_level_roles s u g)) = role_xp_assignments s"
  "optin_message_id (snd (check_and_update_level_roles s u g)) = optin_message_id s"
  "whitelist_table (snd (check_and_update_level_roles s u g)) = whitelist_table s"
  "quests_table (snd (check_and_update_level_roles s u g)) = quests_table s"
  "gains_table (snd (check_and_update_level_roles s u g)) = gains_table s"
  by (simp_all add: check_and_update_level_roles_def split_beta Let_def get_user_data_snd
      calculate_total_user_xp_snd whitelist_table_def quests_table_def gains_table_def
      option.map_comp comp_def split: option.splits)

lemma update_user_level_role_frame:
  "db_connection (update_user_level_role s u g old_level new_level) = db_connection s"
  "sent (update_user_level_role s u g old_level new_level) = sent s"
  "tasks (update_user_level_role s u g old_level new_level) = tasks s"
  "role_xp_assignments (update_user_level_role s u g old_level new_level) = role_xp_assignments s"
  "optin_message_id (update_user_level_role s u g old_level new_level) = optin_message_id s"
  by (simp_all add: update_user_level_role_def split: lookup.splits)

lemma run_task_list_frame:
  "db_connection (run_task_list s ts) = db_connection s"
  "sent (run_task_list s ts) = sent s"
  "tasks (run_task_list s ts) = tasks s"
  "role_xp_assignments (run_task_list s ts) = role_xp_assignments s"
  "optin_message_id (run_task_list s ts) = optin_message_id s"
  by (induction s ts rule: run_task_list.induct) (simp_all add: update_user_level_role_frame)

lemma run_tasks_frame:
  "db_connection (run_tasks s) = db_connection s"
  "sent (run_tasks s) = sent s"
  "tasks (run_tasks s) = []"
  "role_xp_assignments (run_tasks s) = role_xp_assignments s"
  "optin_message_id (run_tasks s) = optin_message_id s"
  by (simp_all add: run_tasks_def run_task_list_frame)

section \<open>The channel gate\<close>



lemma whitelist_table_simps [simp]:
  "whitelist_table (put_guild s gid gd) = whitelist_table s"
  "whitelist_table (channel_send s c m) = whitelist_table s"
  "whitelist_table (create_task s t) = whitelist_table s"
  by (simp_all add: whitelist_table_def)












section \<open>Quest completion\<close>


lemma has_level_role_loop_list_ex:
  "has_level_role_loop rs = list_ex (\<lambda>r. startswith (role_name r) ''Level '') rs"
  by (induction rs) simp_all

lemma optin_reaction_opted_in:
  "is_user_opted_in s (reactor_id ev) (message_guild_id ev) \<Longrightarrow> optin_reaction s ev = s"
  by (simp add: optin_reaction_def is_user_opted_in_def has_level_role_loop_list_ex
      split: lookup.splits)



lemma quests_table_simps [simp]:
  "quests_table (put_guild s gid gd) = quests_table s"
  "quests_table (channel_send s c m) = quests_table s"
  "quests_table (create_task s t) = quests_table s"
  by (simp_all add: quests_table_def)

lemma quests_table_send_whitelisted_message [simp]:
  "quests_table (send_whitelisted_message s g c m) = quests_table s"
  by (simp add: send_whitelisted_message_def Let_def split: option.splits)

lemma quests_table_run_tasks [simp]: "quests_table (run_tasks s) = quests_table s"
  by (simp add: quests_table_def run_tasks_frame)

lemma base_xp_cong:
  "db_connection s' = db_connection s \<Longrightarrow> base_xp s' u g = base_xp s u g"
  by (simp add: base_xp_def get_user_data_fst)

lemma db_connection_send_whitelisted_message [simp]:
  "db_connection (send_whitelisted_message s g c m) = db_connection s"
  by (simp add: send_whitelisted_message_def Let_def split: option.splits)





lemma optin_message_id_quest_reaction [simp]:
  "optin_message_id (quest_reaction s ev) = optin_message_id s"
  by (simp add: quest_reaction_def Let_def split_beta send_whitelisted_message_def
      update_user_xp_frame split: option.splits)




section \<open>Streak role gains\<close>

lemma gains_table_simps [simp]:
  "gains_table (put_guild s gid gd) = gains_table s"
  "gains_table (channel_send s c m) = gains_table s"
  "gains_table (create_task s t) = gains_table s"
  "gains_table (s\<lparr>get_guild := p\<rparr>) = gains_table s"
  "gains_table (run_tasks s) = gains_table s"
  by (simp_all add: gains_table_def run_tasks_frame)

lemma gains_table_notify_first_channel [simp]:
  "gains_table (notify_first_channel s g m) = gains_table s"
  by (simp add: notify_first_channel_def split: lookup.splits option.splits prod.splits)

lemma role_xp_assignments_notify_first_channel [simp]:
  "role_xp_assignments (notify_first_channel s g m) = role_xp_assignments s"
  by (simp add: notify_first_channel_def split: lookup.splits option.splits prod.splits)


lemma logged_streak_xp_gains_table:
  "logged_streak_xp s u g =
     (case gains_table s of
        None \<Rightarrow> 0
      | Some gs \<Rightarrow>
          sum_list (map xp_awarded (filter (\<lambda>r. gain_user_id r = u \<and> gain_guild_id r = g) gs)))"
  by (simp add: logged_streak_xp_def gains_table_def user_gains_def split: option.splits)

lemma get_role_xp_and_type_cong:
  "role_xp_assignments s' = role_xp_assignments s \<Longrightarrow>
   get_role_xp_and_type s' g k = get_role_xp_and_type s g k"
  by (simp add: get_role_xp_and_type_def)










section \<open>Role operations\<close>

lemma set_member_roles_fields [simp]:
  "guild_roles (set_member_roles g u rs) = guild_roles g"
  "bot_can_manage_roles (set_member_roles g u rs) = bot_can_manage_roles g"
  "text_channels (set_member_roles g u rs) = text_channels g"
  "get_member (set_member_roles g u rs) = (get_member g)(u := Found rs)"
  "member_roles (set_member_roles g u rs) u = rs"
  by (simp_all add: set_member_roles_def member_roles_def)

lemma set_member_roles_twice [simp]:
  "set_member_roles (set_member_roles g u a) u b = set_member_roles g u b"
  by (simp add: set_member_roles_def)

lemma set_member_roles_same:
  "get_member g u = Found rs \<Longrightarrow> set_member_roles g u rs = g"
  by (simp add: set_member_roles_def fun_upd_idem)

lemma member_roles_found: "get_member g u = Found rs \<Longrightarrow> member_roles g u = rs"
  by (simp add: member_roles_def)

lemma is_level_role_level_role_name: "is_level_role r = startswith (role_name r) ''Level ''"
  by (simp add: is_level_role_def)

lemma startswith_append [simp]: "startswith (p @ rest) p"
  by (induction p) simp_all

lemma level_role_name_is_level [simp]: "startswith (level_role_name n) ''Level ''"
  unfolding level_role_name_def by (rule startswith_append)

lemma remove_level_roles_loop_Cons:
  "remove_level_roles_loop g u keep (r # rest) =
     (if stale_level_role keep r then
        (case remove_roles g u r of
           (Some e, g') \<Rightarrow> (Some e, g')
         | (None, g') \<Rightarrow> remove_level_roles_loop g' u keep rest)
      else remove_level_roles_loop g u keep rest)"
  by (simp add: stale_level_role_def)

lemma remove_level_roles_loop_permitted:
  assumes "bot_can_manage_roles g" and "get_member g u = Found cur"
  shows "remove_level_roles_loop g u keep xs =
           (None, set_member_roles g u
                    (filter (\<lambda>x. role_id x \<notin> role_id ` {r \<in> set xs. stale_level_role keep r}) cur))"
  using assms
proof (induction xs arbitrary: g cur)
  case Nil
  then show ?case
    by (simp add: set_member_roles_same)
next
  case (Cons r xs)
  show ?case
  proof (cases "stale_level_role keep r")
    case False
    then have same: "{x \<in> set (r # xs). stale_level_role keep x} = {x \<in> set xs. stale_level_role keep x}"
      by auto
    from False Cons.IH [OF Cons.prems] show ?thesis
      unfolding same by (simp add: remove_level_roles_loop_Cons del: remove_level_roles_loop.simps)
  next
    case True
    let ?cur1 = "filter (\<lambda>x. role_id x \<noteq> role_id r) cur"
    let ?g1 = "set_member_roles g u ?cur1"
    have removed: "remove_roles g u r = (None, ?g1)"
      using Cons.prems by (simp add: remove_roles_def member_roles_found)
    have ih: "remove_level_roles_loop ?g1 u keep xs =
           (None, set_member_roles ?g1 u
                    (filter (\<lambda>x. role_id x \<notin> role_id ` {r \<in> set xs. stale_level_role keep r}) ?cur1))"
      using Cons.prems by (intro Cons.IH) simp_all
    have ids: "role_id ` {x \<in> set (r # xs). stale_level_role keep x}
                 = insert (role_id r) (role_id ` {x \<in> set xs. stale_level_role keep x})"
      using True by auto
    have "filter (\<lambda>x. role_id x \<notin> role_id ` {r \<in> set xs. stale_level_role keep r}) ?cur1
            = filter (\<lambda>x. role_id x \<notin> role_id ` {x \<in> set (r # xs). stale_level_role keep x}) cur"
      unfolding ids by (induction cur) auto
    with True removed ih show ?thesis
      by (simp add: remove_level_roles_loop_Cons del: remove_level_roles_loop.simps)
  qed
qed

lemma inj_on_role_id:
  assumes "member_roles_consistent gd u"
  shows "inj_on role_id (set (guild_roles gd))"
  using assms by (simp add: member_roles_consistent_def distinct_map)

lemma same_id_same_role:
  assumes "member_roles_consistent gd u" and "x \<in> set (guild_roles gd)" and "y \<in> set (guild_roles gd)"
    and "role_id x = role_id y"
  shows "x = y"
  using inj_on_role_id [OF assms(1)] assms(2-4) by (auto dest: inj_onD)

lemma filter_stale_ids:
  assumes "member_roles_consistent gd u" and "member_roles gd u = cur"
  shows "filter (\<lambda>x. role_id x \<notin> role_id ` {r \<in> set cur. stale_level_role keep r}) cur
           = filter (\<lambda>x. \<not> stale_level_role keep x) cur"
proof (rule filter_cong [OF refl])
  fix x assume x: "x \<in> set cur"
  have sub: "set cur \<subseteq> set (guild_roles gd)"
    using assms by (auto simp add: member_roles_consistent_def)
  show "(role_id x \<notin> role_id ` {r \<in> set cur. stale_level_role keep r}) = (\<not> stale_level_role keep x)"
  proof
    assume "role_id x \<notin> role_id ` {r \<in> set cur. stale_level_role keep r}"
    with x show "\<not> stale_level_role keep x" by auto
  next
    assume fresh: "\<not> stale_level_role keep x"
    show "role_id x \<notin> role_id ` {r \<in> set cur. stale_level_role keep r}"
    proof
      assume "role_id x \<in> role_id ` {r \<in> set cur. stale_level_role keep r}"
      then obtain r where r: "r \<in> set cur" "stale_level_role keep r" "role_id x = role_id r"
        by auto
      with x sub same_id_same_role [OF assms(1), of x r] have "x = r" by auto
      with r fresh show False by simp
    qed
  qed
qed

lemma fold_max_lower: "(b::int) \<le> fold max ys b"
proof (induction ys arbitrary: b)
  case Nil
  show ?case by simp
next
  case (Cons y ys)
  have "b \<le> max y b" by simp
  also have "max y b \<le> fold max ys (max y b)" by (rule Cons.IH)
  finally show ?case by simp
qed

lemma fold_max_upper: "(x::int) \<in> set xs \<Longrightarrow> x \<le> fold max xs a"
proof (induction xs arbitrary: a)
  case Nil
  then show ?case by simp
next
  case (Cons y ys)
  show ?case
  proof (cases "x = y")
    case True
    have "y \<le> max y a" by simp
    also have "max y a \<le> fold max ys (max y a)" by (rule fold_max_lower)
    finally show ?thesis using True by simp
  next
    case False
    with Cons.prems have "x \<in> set ys" by simp
    from Cons.IH [OF this, of "max y a"] show ?thesis by simp
  qed
qed

lemma fresh_role_id_new: "fresh_role_id g \<notin> role_id ` set (guild_roles g)"
proof
  assume "fresh_role_id g \<in> role_id ` set (guild_roles g)"
  then have "fresh_role_id g \<in> set (map role_id (guild_roles g))" by simp
  from fold_max_upper [OF this, of 0] show False
    by (simp add: fresh_role_id_def)
qed

lemma get_role_by_name_append:
  "get_role_by_name (xs @ ys) n =
     (case get_role_by_name xs n of Some r \<Rightarrow> Some r | None \<Rightarrow> get_role_by_name ys n)"
  by (induction xs) (simp_all add: get_role_by_name_def)

lemma get_role_by_name_Some:
  "get_role_by_name xs n = Some r \<Longrightarrow> r \<in> set xs \<and> role_name r = n"
  by (auto simp add: get_role_by_name_def find_Some_iff)

lemma get_role_by_name_None:
  "(get_role_by_name xs n = None) = (\<forall>r \<in> set xs. role_name r \<noteq> n)"
  by (auto simp add: get_role_by_name_def find_None_iff)

lemma create_role_permitted:
  "bot_can_manage_roles g \<Longrightarrow>
   create_role g n =
     (None, g\<lparr>guild_roles := guild_roles g @ [\<lparr>role_id = fresh_role_id g, role_name = n\<rparr>]\<rparr>)"
  by (simp add: create_role_def)

lemma create_level_roles_loop_permitted:
  assumes "bot_can_manage_roles g"
  shows "\<exists>extra. create_level_roles_loop g lvls = (None, g\<lparr>guild_roles := guild_roles g @ extra\<rparr>)
           \<and> (\<forall>r \<in> set extra. role_id r \<notin> role_id ` set (guild_roles g))
           \<and> (\<forall>lvl \<in> set lvls. get_role_by_name (guild_roles g @ extra) (level_role_name lvl) \<noteq> None)"
  using assms
proof (induction lvls arbitrary: g)
  case Nil
  have "create_level_roles_loop g [] = (None, g\<lparr>guild_roles := guild_roles g @ []\<rparr>)"
    by simp
  then show ?case by fastforce
next
  case (Cons lvl lvls)
  show ?case
  proof (cases "get_role_by_name (guild_roles g) (level_role_name lvl)")
    case (Some existing)
    from Cons.IH [OF Cons.prems] obtain extra where
      extra: "create_level_roles_loop g lvls = (None, g\<lparr>guild_roles := guild_roles g @ extra\<rparr>)"
        "\<forall>r \<in> set extra. role_id r \<notin> role_id ` set (guild_roles g)"
        "\<forall>l \<in> set lvls. get_role_by_name (guild_roles g @ extra) (level_role_name l) \<noteq> None"
      by blast
    have "get_role_by_name (guild_roles g @ extra) (level_role_name lvl) \<noteq> None"
      using Some by (simp add: get_role_by_name_append)
    with extra Some show ?thesis
      by auto
  next
    case None
    let ?new = "\<lparr>role_id = fresh_role_id g, role_name = level_role_name lvl\<rparr>"
    let ?g1 = "g\<lparr>guild_roles := guild_roles g @ [?new]\<rparr>"
    have perm1: "bot_can_manage_roles ?g1"
      using Cons.prems by simp
    from Cons.IH [OF perm1] obtain extra where
      extra: "create_level_roles_loop ?g1 lvls = (None, ?g1\<lparr>guild_roles := guild_roles ?g1 @ extra\<rparr>)"
        "\<forall>r \<in> set extra. role_id r \<notin> role_id ` set (guild_roles ?g1)"
        "\<forall>l \<in> set lvls. get_role_by_name (guild_roles ?g1 @ extra) (level_role_name l) \<noteq> None"
      by blast
    have loop: "create_level_roles_loop g (lvl # lvls)
                  = (None, g\<lparr>guild_roles := guild_roles g @ (?new # extra)\<rparr>)"
      using None extra(1) create_role_permitted [OF Cons.prems, of "level_role_name lvl"]
      by simp
    have fresh: "\<forall>r \<in> set (?new # extra). role_id r \<notin> role_id ` set (guild_roles g)"
      using extra(2) fresh_role_id_new [of g] by auto
    have here: "get_role_by_name (guild_roles g @ (?new # extra)) (level_role_name lvl) \<noteq> None"
      by (simp add: get_role_by_name_None)
    have rest: "\<forall>l \<in> set lvls. get_role_by_name (guild_roles g @ (?new # extra)) (level_role_name l) \<noteq> None"
      using extra(3) by simp
    from loop fresh here rest show ?thesis
      by (intro exI [of _ "?new # extra"]) simp
  qed
qed

lemma create_level_roles_permitted:
  assumes "bot_can_manage_roles g" and "1 \<le> n" and "n \<le> 10"
  shows "\<exists>extra. create_level_roles g = g\<lparr>guild_roles := guild_roles g @ extra\<rparr>
           \<and> (\<forall>r \<in> set extra. role_id r \<notin> role_id ` set (guild_roles g))
           \<and> get_role_by_name (guild_roles g @ extra) (level_role_name n) \<noteq> None"
proof -
  from create_level_roles_loop_permitted [OF assms(1), of "[1, 2, 3, 4, 5, 6, 7, 8, 9, 10]"]
  obtain extra where
    extra: "create_level_roles_loop g [1, 2, 3, 4, 5, 6, 7, 8, 9, 10]
              = (None, g\<lparr>guild_roles := guild_roles g @ extra\<rparr>)"
      "\<forall>r \<in> set extra. role_id r \<notin> role_id ` set (guild_roles g)"
      "\<forall>l \<in> set [1, 2, 3, 4, 5, 6, 7, 8, 9, 10::int].
          get_role_by_name (guild_roles g @ extra) (level_role_name l) \<noteq> None"
    by blast
  have "n \<in> set [1, 2, 3, 4, 5, 6, 7, 8, 9, 10::int]"
    using assms(2,3) by (simp) arith
  with extra(3) have "get_role_by_name (guild_roles g @ extra) (level_role_name n) \<noteq> None"
    by blast
  with extra(1,2) show ?thesis
    by (auto simp add: create_level_roles_def)
qed

lemma role_in_iff: "role_in r rs = (\<exists>x \<in> set rs. role_id x = role_id r)"
  unfolding role_in_def by (simp add: image_iff) metis

lemma add_roles_permitted:
  assumes "bot_can_manage_roles g" and "get_member g u = Found cur"
  shows "snd (add_roles g u r) = set_member_roles g u (cur @ (if role_in r cur then [] else [r]))"
  using assms
  by (simp add: add_roles_def member_roles_found set_member_roles_same)

lemma sync_level_role_roles:
  assumes perm: "bot_can_manage_roles g"
    and found: "get_member g u = Found rs"
    and cons: "member_roles_consistent g u"
    and lvl: "1 \<le> n" "n \<le> 10"
  shows "\<exists>new. role_name new = level_role_name n
           \<and> get_member (sync_level_role g u n) u =
               Found (filter (\<lambda>x. \<not> stale_level_role (level_role_name n) x) rs
                      @ (if role_in new (filter (\<lambda>x. \<not> stale_level_role (level_role_name n) x) rs)
                         then [] else [new]))
           \<and> (get_role_by_name (guild_roles g) (level_role_name n) = Some new
               \<or> (get_role_by_name (guild_roles g) (level_role_name n) = None
                   \<and> role_id new \<notin> role_id ` set (guild_roles g)))"
proof -
  let ?target = "level_role_name n"
  let ?kept = "filter (\<lambda>x. \<not> stale_level_role ?target x) rs"
  let ?g1 = "set_member_roles g u ?kept"
  have rs: "member_roles g u = rs"
    using found by (rule member_roles_found)
  have loop: "remove_level_roles_loop g u ?target (member_roles g u) = (None, ?g1)"
    using remove_level_roles_loop_permitted [OF perm found, of ?target rs]
      filter_stale_ids [OF cons rs, of ?target]
    by (simp add: rs)
  have perm1: "bot_can_manage_roles ?g1" and found1: "get_member ?g1 u = Found ?kept"
    using perm by simp_all
  show ?thesis
  proof (cases "get_role_by_name (guild_roles g) ?target")
    case (Some new_role)
    have name: "role_name new_role = ?target"
      using get_role_by_name_Some [OF Some] by simp
    have "sync_level_role g u n =
            (if \<not> role_in new_role ?kept then snd (add_roles ?g1 u new_role) else ?g1)"
      using loop Some by (simp add: sync_level_role_def Let_def)
    also have "\<dots> = set_member_roles g u (?kept @ (if role_in new_role ?kept then [] else [new_role]))"
      using add_roles_permitted [OF perm1 found1, of new_role]
      by simp
    finally have "get_member (sync_level_role g u n) u =
            Found (?kept @ (if role_in new_role ?kept then [] else [new_role]))"
      by simp
    with name Some show ?thesis
      by blast
  next
    case None
    from create_level_roles_permitted [OF perm1 lvl] obtain extra where
      extra: "create_level_roles ?g1 = ?g1\<lparr>guild_roles := guild_roles ?g1 @ extra\<rparr>"
        "\<forall>r \<in> set extra. role_id r \<notin> role_id ` set (guild_roles ?g1)"
        "get_role_by_name (guild_roles ?g1 @ extra) ?target \<noteq> None"
      by blast
    let ?g2 = "?g1\<lparr>guild_roles := guild_roles ?g1 @ extra\<rparr>"
    from extra(3) obtain new_role where
      new_role: "get_role_by_name (guild_roles ?g1 @ extra) ?target = Some new_role"
      by blast
    have in_extra: "get_role_by_name extra ?target = Some new_role"
      using new_role None by (simp add: get_role_by_name_append)
    then have mem: "new_role \<in> set extra" and name: "role_name new_role = ?target"
      using get_role_by_name_Some by blast+
    with extra(2) have fresh: "role_id new_role \<notin> role_id ` set (guild_roles g)"
      by simp
    have sub: "set ?kept \<subseteq> set (guild_roles g)"
      using cons rs by (auto simp add: member_roles_consistent_def)
    have not_held: "\<not> role_in new_role ?kept"
    proof
      assume "role_in new_role ?kept"
      then obtain x where "x \<in> set ?kept" "role_id x = role_id new_role"
        unfolding role_in_iff by blast
      with sub have "role_id new_role \<in> role_id ` set (guild_roles g)"
        by (metis imageI subsetD)
      with fresh show False by simp
    qed
    have perm2: "bot_can_manage_roles ?g2" and found2: "get_member ?g2 u = Found ?kept"
      using perm by simp_all
    have "sync_level_role g u n = snd (add_roles ?g2 u new_role)"
      using loop None extra(1) new_role by (simp add: sync_level_role_def Let_def)
    also have "\<dots> = set_member_roles ?g2 u (?kept @ [new_role])"
      using add_roles_permitted [OF perm2 found2, of new_role] not_held by simp
    finally have "get_member (sync_level_role g u n) u = Found (?kept @ [new_role])"
      by simp
    with name fresh None not_held show ?thesis
      by auto
  qed
qed

lemma same_name_same_role:
  assumes "unique_role_names gd" and "x \<in> set (guild_roles gd)" and "y \<in> set (guild_roles gd)"
    and "role_name x = role_name y"
  shows "x = y"
proof -
  from assms(1) have "inj_on role_name (set (guild_roles gd))"
    by (simp add: unique_role_names_def distinct_map)
  with assms(2-4) show ?thesis
    by (auto dest: inj_onD)
qed

lemma distinct_all_equal:
  assumes "distinct xs" and "\<forall>y \<in> set xs. y = a" and "a \<in> set xs"
  shows "xs = [a]"
proof (cases xs)
  case Nil
  with assms(3) show ?thesis by simp
next
  case (Cons x rest)
  with assms(2) have x: "x = a" by simp
  have "rest = []"
  proof (cases rest)
    case Nil
    then show ?thesis .
  next
    case (Cons y ys)
    with \<open>xs = x # rest\<close> assms(2) have "y = a" by simp
    with Cons \<open>xs = x # rest\<close> x assms(1) show ?thesis by simp
  qed
  with Cons x show ?thesis by simp
qed

lemma stale_is_level: "stale_level_role keep x \<Longrightarrow> is_level_role x"
  by (simp add: stale_level_role_def is_level_role_def)

lemma sync_level_role_markers:
  assumes perm: "bot_can_manage_roles g"
    and found: "get_member g u = Found rs"
    and cons: "member_roles_consistent g u"
    and lvl: "1 \<le> n" "n \<le> 10"
  shows "\<exists>held. get_member (sync_level_role g u n) u = Found held
           \<and> filter (\<lambda>r. \<not> is_level_role r) held = filter (\<lambda>r. \<not> is_level_role r) rs
           \<and> (\<forall>x \<in> set (filter is_level_role held). role_name x = level_role_name n)
           \<and> filter is_level_role held \<noteq> []
           \<and> (unique_role_names g \<longrightarrow>
                (\<exists>new. filter is_level_role held = [new] \<and> role_name new = level_role_name n))"
proof -
  let ?target = "level_role_name n"
  let ?kept = "filter (\<lambda>x. \<not> stale_level_role ?target x) rs"
  from sync_level_role_roles [OF perm found cons lvl] obtain new where
    name: "role_name new = ?target"
    and held: "get_member (sync_level_role g u n) u =
                 Found (?kept @ (if role_in new ?kept then [] else [new]))"
    and origin: "get_role_by_name (guild_roles g) ?target = Some new
                 \<or> (get_role_by_name (guild_roles g) ?target = None
                     \<and> role_id new \<notin> role_id ` set (guild_roles g))"
    by blast
  let ?held = "?kept @ (if role_in new ?kept then [] else [new])"
  have rs: "member_roles g u = rs"
    using found by (rule member_roles_found)
  have sub: "set rs \<subseteq> set (guild_roles g)" and dist: "distinct rs"
    using cons rs by (auto simp add: member_roles_consistent_def)
  have new_level: "is_level_role new"
    using name by (simp add: is_level_role_def)
  have other: "filter (\<lambda>r. \<not> is_level_role r) ?held = filter (\<lambda>r. \<not> is_level_role r) rs"
  proof -
    have "filter (\<lambda>r. \<not> is_level_role r) ?kept = filter (\<lambda>r. \<not> is_level_role r) rs"
      by (rule filter_filter_implied) (auto dest: stale_is_level)
    with new_level show ?thesis
      by simp
  qed
  have kept_names: "role_name x = ?target" if "x \<in> set (filter is_level_role ?kept)" for x
    using that by (auto simp add: stale_level_role_def is_level_role_def)
  have names: "\<forall>x \<in> set (filter is_level_role ?held). role_name x = ?target"
    using kept_names name by auto
  have levels: "filter is_level_role ?held =
                  filter is_level_role ?kept @ (if role_in new ?kept then [] else [new])"
    using new_level by simp
  have new_in_kept: "new \<in> set (filter is_level_role ?kept)"
    if "role_in new ?kept" and "new \<in> set (guild_roles g)"
  proof -
    from that(1) obtain x where x: "x \<in> set ?kept" "role_id x = role_id new"
      unfolding role_in_iff by blast
    with sub have "x \<in> set (guild_roles g)" by auto
    from same_id_same_role [OF cons this that(2) x(2)] x(1) new_level show ?thesis
      by simp
  qed
  have fresh_not_in: "\<not> role_in new ?kept" if "role_id new \<notin> role_id ` set (guild_roles g)"
  proof
    assume "role_in new ?kept"
    then obtain x where "x \<in> set ?kept" "role_id x = role_id new"
      unfolding role_in_iff by blast
    with sub have "role_id new \<in> role_id ` set (guild_roles g)"
      by (metis (no_types, lifting) filter_is_subset imageI subsetD)
    with that show False by simp
  qed
  have nonempty: "filter is_level_role ?held \<noteq> []"
  proof (cases "role_in new ?kept")
    case False
    then show ?thesis
      unfolding levels by simp
  next
    case True
    with fresh_not_in origin have "get_role_by_name (guild_roles g) ?target = Some new"
      by blast
    then have "new \<in> set (guild_roles g)"
      using get_role_by_name_Some by blast
    from new_in_kept [OF True this] have "filter is_level_role ?kept \<noteq> []"
      by (metis empty_iff empty_set)
    then show ?thesis
      unfolding levels by simp
  qed
  have single: "\<exists>r. filter is_level_role ?held = [r] \<and> role_name r = ?target"
    if unique: "unique_role_names g"
  proof -
    have kept_sub: "set (filter is_level_role ?kept) \<subseteq> set (guild_roles g)"
      using sub by auto
    show ?thesis
    proof (cases "get_role_by_name (guild_roles g) ?target")
      case None
      then have no_target: "\<forall>r \<in> set (guild_roles g). role_name r \<noteq> ?target"
        by (simp add: get_role_by_name_None)
      have "filter is_level_role ?kept = []"
      proof (rule ccontr)
        assume "filter is_level_role ?kept \<noteq> []"
        then obtain x where x: "x \<in> set (filter is_level_role ?kept)"
          by (meson last_in_set)
        with kept_sub have "x \<in> set (guild_roles g)" by blast
        with no_target kept_names [OF x] show False by blast
      qed
      moreover have "\<not> role_in new ?kept"
        using origin None fresh_not_in by simp
      ultimately show ?thesis
        unfolding levels using name by simp
    next
      case (Some found_role)
      with origin have new_found: "get_role_by_name (guild_roles g) ?target = Some new"
        by simp
      then have new_guild: "new \<in> set (guild_roles g)"
        using get_role_by_name_Some by blast
      have all_new: "\<forall>y \<in> set (filter is_level_role ?kept). y = new"
      proof
        fix y assume y: "y \<in> set (filter is_level_role ?kept)"
        with kept_sub have "y \<in> set (guild_roles g)" by blast
        from same_name_same_role [OF unique this new_guild] kept_names [OF y] name
        show "y = new" by simp
      qed
      have dist_kept: "distinct (filter is_level_role ?kept)"
        using dist by simp
      show ?thesis
      proof (cases "role_in new ?kept")
        case True
        from distinct_all_equal [OF dist_kept all_new new_in_kept [OF True new_guild]] True name
        show ?thesis
          unfolding levels by simp
      next
        case False
        have "filter is_level_role ?kept = []"
        proof (rule ccontr)
          assume "filter is_level_role ?kept \<noteq> []"
          then obtain x where x: "x \<in> set (filter is_level_role ?kept)"
            by (meson last_in_set)
          with all_new have "x = new" by blast
          with x have "new \<in> set ?kept" by simp
          then have "role_in new ?kept"
            unfolding role_in_iff by blast
          with False show False by simp
        qed
        with False name show ?thesis
          unfolding levels by simp
      qed
    qed
  qed
  from held other names nonempty single show ?thesis
    by blast
qed

section \<open>Opting in\<close>

lemma get_guild_send_whitelisted_message [simp]:
  "get_guild (send_whitelisted_message s g c m) = get_guild s"
  by (simp add: send_whitelisted_message_def Let_def split: option.splits)








lemma example_guild_consistent:
  "bot_can_manage_roles example_guild"
  "member_roles_consistent example_guild 8"
  "member_roles_consistent example_guild 7"
  "unique_role_names example_guild"
  by (simp_all add: member_roles_consistent_def unique_role_names_def member_roles_def example_defs)


section \<open>Level markers after a level change\<close>

lemma update_user_level_role_found:
  "get_guild s g = Found gd \<Longrightarrow> get_member gd u = Found rs \<Longrightarrow>
   update_user_level_role s u g old_level n = put_guild s g (sync_level_role gd u n)"
  by (simp add: update_user_level_role_def)

lemma has_assignment_of_type_cong:
  "role_xp_assignments s' = role_xp_assignments s \<Longrightarrow>
   has_assignment_of_type s' g ty = has_assignment_of_type s g ty"
  by (rule ext) (simp add: has_assignment_of_type_def assignment_of_def get_role_xp_and_type_def)

lemma assigned_xp_cong:
  "role_xp_assignments s' = role_xp_assignments s \<Longrightarrow> assigned_xp s' g = assigned_xp s g"
  by (rule ext) (simp add: assigned_xp_def assignment_of_def get_role_xp_and_type_def)

lemma assignment_of_cong:
  "role_xp_assignments s' = role_xp_assignments s \<Longrightarrow> assignment_of s' g = assignment_of s g"
  by (rule ext) (simp add: assignment_of_def get_role_xp_and_type_def)

lemma filter_not_level_first:
  "filter (\<lambda>r. \<not> is_level_role r \<and> P r) rs = filter P (filter (\<lambda>r. \<not> is_level_role r) rs)"
  by (induction rs) auto

lemma role_loops_cong:
  assumes "filter (\<lambda>r. \<not> is_level_role r) rs' = filter (\<lambda>r. \<not> is_level_role r) rs"
    and "role_xp_assignments s' = role_xp_assignments s"
  shows "custom_role_xp_loop s' g rs' 0 = custom_role_xp_loop s g rs 0"
    and "auto_role_xp_loop s' g rs' 0 = auto_role_xp_loop s g rs 0"
proof -
  show "custom_role_xp_loop s' g rs' 0 = custom_role_xp_loop s g rs 0"
    unfolding custom_role_xp_loop_sum
      filter_not_level_first [of "\<lambda>r. \<not> has_assignment_of_type s' g ''streak'' r" rs']
      filter_not_level_first [of "\<lambda>r. \<not> has_assignment_of_type s g ''streak'' r" rs]
    by (simp add: assms(1) has_assignment_of_type_cong [OF assms(2)] assigned_xp_cong [OF assms(2)])
  show "auto_role_xp_loop s' g rs' 0 = auto_role_xp_loop s g rs 0"
    unfolding auto_role_xp_loop_count
      filter_not_level_first
        [of "\<lambda>r. contains (lower (role_name r)) ''badge'' \<and> assignment_of s' g r = None" rs']
      filter_not_level_first
        [of "\<lambda>r. contains (lower (role_name r)) ''badge'' \<and> assignment_of s g r = None" rs]
    by (simp add: assms(1) assignment_of_cong [OF assms(2)])
qed

lemma logged_streak_xp_cong:
  "gains_table s' = gains_table s \<Longrightarrow> logged_streak_xp s' u g = logged_streak_xp s u g"
  by (simp add: logged_streak_xp_gains_table)

lemma total_xp_cong:
  assumes "get_guild s g = Found gd" and "get_member gd u = Found rs"
    and "get_guild s' g = Found gd'" and "get_member gd' u = Found rs'"
    and "filter (\<lambda>r. \<not> is_level_role r) rs' = filter (\<lambda>r. \<not> is_level_role r) rs"
    and "role_xp_assignments s' = role_xp_assignments s"
    and "base_xp s' u g = base_xp s u g"
    and "gains_table s' = gains_table s"
  shows "total_xp s' u g = total_xp s u g"
  unfolding total_xp_def
    calculate_total_user_xp_readable [OF assms(1,2)]
    calculate_total_user_xp_readable [OF assms(3,4)]
    role_loops_cong [OF assms(5,6)] assms(7) logged_streak_xp_cong [OF assms(8)]
  by (rule refl)

lemma run_tasks_single:
  "tasks s = [(u, g, old_level, n)] \<Longrightarrow>
   run_tasks s = update_user_level_role (s\<lparr>tasks := []\<rparr>) u g old_level n"
  by (simp add: run_tasks_def)

lemma run_tasks_idle: "tasks s = [] \<Longrightarrow> run_tasks s = s"
  by (simp add: run_tasks_def)

lemma cached_level_stored:
  "stored_row s u g = Some row \<Longrightarrow> cached_level s u g = user_level row"
  by (auto simp add: cached_level_def get_user_data_fst stored_row_def ledger_row_def
      split: option.splits)

lemma cached_level_connected:
  "db_connection s = Some db \<Longrightarrow> cached_level s u g = user_level (ledger_row db u g)"
  by (simp add: cached_level_def get_user_data_fst)

lemma stored_row_cong:
  "db_connection s' = db_connection s \<Longrightarrow> stored_row s' u g = stored_row s u g"
  by (simp add: stored_row_def)

lemma update_user_xp_result:
  assumes "db_connection s = Some db"
  shows "snd (fst (update_user_xp s u g c)) = calculate_level (fst (fst (update_user_xp s u g c)))"
    and "tasks (snd (update_user_xp s u g c)) =
           tasks s @ (if cached_level s u g \<noteq> snd (fst (update_user_xp s u g c))
                      then [(u, g, cached_level s u g, snd (fst (update_user_xp s u g c)))]
                      else [])"
    and "fst (fst (update_user_xp s u g c)) =
           total_xp (execute s (\<lambda>d. sql_update_users (insert_or_ignore_user d u g) u g
                                  (\<lambda>row. row\<lparr>user_xp := max 0 (user_xp (ledger_row db u g) + c)\<rparr>))) u g"
  using assms
  by (simp_all add: update_user_xp_def split_beta Let_def get_user_data_fst get_user_data_snd
      calculate_total_user_xp_snd cached_level_connected execute_execute total_xp_def)

lemma logged_streak_xp_execute_insert:
  "logged_streak_xp (execute (execute s (\<lambda>d. insert_or_ignore_user d u g)) (\<lambda>d. insert_or_ignore_user d u g)) u g
     = logged_streak_xp s u g"
  by (simp add: logged_streak_xp_def user_gains_def split: option.splits)

lemma calculate_total_user_xp_after_insert:
  "fst (calculate_total_user_xp (execute s (\<lambda>d. insert_or_ignore_user d u g)) u g)
     = fst (calculate_total_user_xp s u g)"
  by (cases "db_connection s")
    (simp_all add: calculate_total_user_xp_def base_xp_fallback_def split_beta Let_def
      get_user_data_fst get_user_data_snd loops_ignore_store get_accumulated_streak_xp_logged
      logged_streak_xp_execute_insert
      split: lookup.splits)

lemma check_and_update_level_roles_result:
  assumes "db_connection s = Some db"
  shows "tasks (snd (check_and_update_level_roles s u g)) =
           tasks s @ (if cached_level s u g \<noteq> calculate_level (total_xp s u g)
                      then [(u, g, cached_level s u g, calculate_level (total_xp s u g))]
                      else [])"
    and "stored_row (snd (check_and_update_level_roles s u g)) u g =
           Some ((ledger_row db u g)\<lparr>user_level := calculate_level (total_xp s u g)\<rparr>)"
    and "fst (check_and_update_level_roles s u g) =
           (cached_level s u g,
            (if cached_level s u g \<noteq> calculate_level (total_xp s u g)
             then calculate_level (total_xp s u g) else cached_level s u g),
            total_xp s u g)"
  using assms
  by (simp_all add: check_and_update_level_roles_def split_beta Let_def get_user_data_fst
      get_user_data_snd calculate_total_user_xp_snd cached_level_connected execute_execute
      total_xp_def stored_row_def sql_update_users_row calculate_total_user_xp_after_insert)

lemma held_roles_found:
  "get_guild s g = Found gd \<Longrightarrow> get_member gd u = Found rs \<Longrightarrow> held_roles s g u = rs"
  by (simp add: held_roles_def member_roles_def)

lemma completed_markers:
  assumes found: "get_guild s g = Found gd" "get_member gd u = Found rs"
    and perm: "bot_can_manage_roles gd"
    and cons: "member_roles_consistent gd u"
    and p_guild: "get_guild p = get_guild s"
    and p_tasks: "tasks p = (if old_level \<noteq> n then [(u, g, old_level, n)] else [])"
    and range: "1 \<le> n" "n \<le> 10"
  shows "\<exists>gd' held. get_guild (run_tasks p) g = Found gd' \<and> get_member gd' u = Found held
           \<and> filter (\<lambda>r. \<not> is_level_role r) held = filter (\<lambda>r. \<not> is_level_role r) rs
           \<and> (old_level = n \<longrightarrow> held = rs)
           \<and> (old_level \<noteq> n \<longrightarrow>
                 (\<forall>x \<in> set (filter is_level_role held). role_name x = level_role_name n)
                 \<and> filter is_level_role held \<noteq> []
                 \<and> (unique_role_names gd \<longrightarrow>
                      (\<exists>new. filter is_level_role held = [new] \<and> role_name new = level_role_name n)))"
proof (cases "old_level = n")
  case True
  with p_tasks have "run_tasks p = p"
    by (simp add: run_tasks_idle)
  with True found p_guild show ?thesis
    by simp
next
  case False
  with p_tasks have one: "tasks p = [(u, g, old_level, n)]"
    by simp
  have "get_guild (p\<lparr>tasks := []\<rparr>) g = Found gd"
    using found(1) p_guild by simp
  from run_tasks_single [OF one] update_user_level_role_found [OF this found(2), of old_level n]
  have ran: "run_tasks p = put_guild (p\<lparr>tasks := []\<rparr>) g (sync_level_role gd u n)"
    by simp
  from sync_level_role_markers [OF perm found(2) cons range] obtain held where
    held: "get_member (sync_level_role gd u n) u = Found held"
      "filter (\<lambda>r. \<not> is_level_role r) held = filter (\<lambda>r. \<not> is_level_role r) rs"
      "\<forall>x \<in> set (filter is_level_role held). role_name x = level_role_name n"
      "filter is_level_role held \<noteq> []"
      "unique_role_names gd \<longrightarrow>
         (\<exists>new. filter is_level_role held = [new] \<and> role_name new = level_role_name n)"
    by blast
  have "get_guild (run_tasks p) g = Found (sync_level_role gd u n)"
    unfolding ran by simp
  with held False show ?thesis
    by blast
qed

lemma held_level_roles_found:
  "get_guild s g = Found gd \<Longrightarrow> get_member gd u = Found rs \<Longrightarrow>
   held_level_roles s g u = filter is_level_role rs"
  by (simp add: held_level_roles_def held_roles_found)

lemma gains_table_execute:
  "(\<And>d. streak_role_gains (f d) = streak_role_gains d) \<Longrightarrow>
   gains_table (execute s f) = gains_table s"
  by (simp add: gains_table_def option.map_comp comp_def)

lemma ledger_update_completed:
  assumes connected: "db_connection s = Some db"
    and idle: "tasks s = []"
    and found: "get_guild s g = Found gd" "get_member gd u = Found rs"
    and perm: "bot_can_manage_roles gd"
    and cons: "member_roles_consistent gd u" "unique_role_names gd"
  shows "snd (fst (update_user_xp s u g c)) = calculate_level (total_xp (completed_ledger_update s u g c) u g)"
    and "cached_level (completed_ledger_update s u g c) u g = snd (fst (update_user_xp s u g c))"
    and "cached_level s u g \<noteq> snd (fst (update_user_xp s u g c)) \<Longrightarrow>
           \<exists>marker. held_level_roles (completed_ledger_update s u g c) g u = [marker]
             \<and> role_name marker = level_role_name (snd (fst (update_user_xp s u g c)))"
    and "cached_level s u g = snd (fst (update_user_xp s u g c)) \<Longrightarrow>
           held_roles (completed_ledger_update s u g c) g u = rs"
proof -
  let ?p = "snd (update_user_xp s u g c)"
  let ?n = "snd (fst (update_user_xp s u g c))"
  let ?f = "completed_ledger_update s u g c"
  let ?s2 = "execute s (\<lambda>d. sql_update_users (insert_or_ignore_user d u g) u g
               (\<lambda>row. row\<lparr>user_xp := max 0 (user_xp (ledger_row db u g) + c)\<rparr>))"
  note res = update_user_xp_result [OF connected, of u g c]
  have range: "1 \<le> ?n" "?n \<le> 10"
    using calculate_level_range [of "fst (fst (update_user_xp s u g c))"] res(1) by simp_all
  have p_tasks: "tasks ?p = (if cached_level s u g \<noteq> ?n then [(u, g, cached_level s u g, ?n)] else [])"
    using res(2) idle by simp
  from completed_markers [OF found perm cons(1) update_user_xp_frame(1) p_tasks range]
  obtain gd' held where
    after: "get_guild ?f g = Found gd'" "get_member gd' u = Found held"
      "filter (\<lambda>r. \<not> is_level_role r) held = filter (\<lambda>r. \<not> is_level_role r) rs"
      "cached_level s u g = ?n \<longrightarrow> held = rs"
      "cached_level s u g \<noteq> ?n \<longrightarrow>
         (unique_role_names gd \<longrightarrow>
            (\<exists>new. filter is_level_role held = [new] \<and> role_name new = level_role_name ?n))"
    unfolding completed_ledger_update_def by blast
  have db_f: "db_connection ?f = db_connection ?p"
    by (simp add: completed_ledger_update_def run_tasks_frame)
  have base_f: "base_xp ?f u g = max 0 (base_xp s u g + c)"
    using base_xp_cong [OF db_f] update_user_xp_base_xp [OF connected] by simp
  have base_2: "base_xp ?s2 u g = max 0 (base_xp s u g + c)"
    using connected
    by (simp add: base_xp_def get_user_data_fst ledger_row_sql_update_users)
  have gains_f: "gains_table ?f = gains_table ?s2"
    using db_f update_user_xp_frame(7) [of s u g c]
    by (simp add: gains_table_execute) (simp add: gains_table_def)
  have roles_f: "role_xp_assignments ?f = role_xp_assignments ?s2"
    by (simp add: completed_ledger_update_def run_tasks_frame update_user_xp_frame)
  have guild_2: "get_guild ?s2 g = Found gd"
    using found(1) by simp
  have "total_xp ?f u g = total_xp ?s2 u g"
    using total_xp_cong [OF guild_2 found(2) after(1,2,3) roles_f _ gains_f] base_f base_2
    by simp
  with res(1,3) show "?n = calculate_level (total_xp ?f u g)"
    by simp
  show "cached_level ?f u g = ?n"
    using update_user_xp_row [OF connected, of u g c] stored_row_cong [OF db_f, of u g]
    by (simp add: cached_level_stored)
  show "\<exists>marker. held_level_roles ?f g u = [marker] \<and> role_name marker = level_role_name ?n"
    if "cached_level s u g \<noteq> ?n"
    using that after(5) cons(2) held_level_roles_found [OF after(1,2)] by simp
  show "held_roles ?f g u = rs" if "cached_level s u g = ?n"
    using that after(4) held_roles_found [OF after(1,2)] by simp
qed

lemma level_recompute_completed:
  assumes connected: "db_connection s = Some db"
    and idle: "tasks s = []"
    and found: "get_guild s g = Found gd" "get_member gd u = Found rs"
    and perm: "bot_can_manage_roles gd"
    and cons: "member_roles_consistent gd u" "unique_role_names gd"
  shows "total_xp (completed_level_recompute s u g) u g = total_xp s u g"
    and "cached_level (completed_level_recompute s u g) u g = calculate_level (total_xp s u g)"
    and "cached_level s u g \<noteq> calculate_level (total_xp s u g) \<Longrightarrow>
           \<exists>marker. held_level_roles (completed_level_recompute s u g) g u = [marker]
             \<and> role_name marker = level_role_name (calculate_level (total_xp s u g))"
    and "cached_level s u g = calculate_level (total_xp s u g) \<Longrightarrow>
           held_roles (completed_level_recompute s u g) g u = rs"
proof -
  let ?p = "snd (check_and_update_level_roles s u g)"
  let ?n = "calculate_level (total_xp s u g)"
  let ?f = "completed_level_recompute s u g"
  note res = check_and_update_level_roles_result [OF connected, of u g]
  have range: "1 \<le> ?n" "?n \<le> 10"
    using calculate_level_range [of "total_xp s u g"] by simp_all
  have p_tasks: "tasks ?p = (if cached_level s u g \<noteq> ?n then [(u, g, cached_level s u g, ?n)] else [])"
    using res(1) idle by simp
  from completed_markers [OF found perm cons(1) check_and_update_level_roles_frame(1) p_tasks range]
  obtain gd' held where
    after: "get_guild ?f g = Found gd'" "get_member gd' u = Found held"
      "filter (\<lambda>r. \<not> is_level_role r) held = filter (\<lambda>r. \<not> is_level_role r) rs"
      "cached_level s u g = ?n \<longrightarrow> held = rs"
      "cached_level s u g \<noteq> ?n \<longrightarrow>
         (unique_role_names gd \<longrightarrow>
            (\<exists>new. filter is_level_role held = [new] \<and> role_name new = level_role_name ?n))"
    unfolding completed_level_recompute_def by blast
  have db_f: "db_connection ?f = db_connection ?p"
    by (simp add: completed_level_recompute_def run_tasks_frame)
  have row_f: "stored_row ?f u g = Some ((ledger_row db u g)\<lparr>user_level := ?n\<rparr>)"
    using res(2) stored_row_cong [OF db_f, of u g] by simp
  have base_f: "base_xp ?f u g = base_xp s u g"
    using base_xp_stored [OF row_f] base_xp_connected [OF connected, of u g] by simp
  have gains_f: "gains_table ?f = gains_table s"
    using db_f check_and_update_level_roles_frame(7) [of s u g]
    by (simp add: gains_table_def)
  have roles_f: "role_xp_assignments ?f = role_xp_assignments s"
    by (simp add: completed_level_recompute_def run_tasks_frame check_and_update_level_roles_frame)
  show "total_xp ?f u g = total_xp s u g"
    using total_xp_cong [OF found after(1,2,3) roles_f base_f gains_f] .
  show "cached_level ?f u g = ?n"
    using row_f by (simp add: cached_level_stored)
  show "\<exists>marker. held_level_roles ?f g u = [marker] \<and> role_name marker = level_role_name ?n"
    if "cached_level s u g \<noteq> ?n"
    using that after(5) cons(2) held_level_roles_found [OF after(1,2)] by simp
  show "held_roles ?f g u = rs" if "cached_level s u g = ?n"
    using that after(4) held_roles_found [OF after(1,2)] by simp
qed

lemmas reactor_defs =
  on_reaction_add_def is_optin_message_def optin_reaction_def grant_level_1_def
  quest_reaction_def is_user_opted_in_def update_user_xp_def sql_update_quest_completed_def
  get_role_by_name_def add_roles_def role_in_def member_roles_def
  send_whitelisted_message_def get_whitelisted_channels_def
  insert_or_ignore_user_def channel_send_def create_task_def run_tasks_def

lemma returning_after_optin_eq:
  "returning_after_optin =
     returning_state
       \<lparr>get_guild := (\<lambda>_. NotFound)
          (1 := Found (set_member_roles example_guild 7 [everyone_role, level_1_role])),
        sent := [(100, Welcome 7)]\<rparr>"
  by (simp add: returning_after_optin_def reactor_defs aggregator_defs example_defs string_defs)

lemma returning_after_quest_eq:
  "returning_after_quest =
     returning_state
       \<lparr>db_connection := Some (example_db
           \<lparr>users := [(7, 1) \<mapsto> \<lparr>user_xp = 110, user_level = 2\<rparr>],
            quests := [500 \<mapsto> \<lparr>title = ''First quest'', completed_users = [7], xp_reward = Some 50\<rparr>],
            streak_role_gains := []\<rparr>),
        get_guild := (\<lambda>_. NotFound)
          (1 := Found (set_member_roles example_guild 7 [everyone_role, level_1_role])),
        sent := [(100, Welcome 7), (100, QuestCompleted 7 ''First quest'' 50 110 2)]\<rparr>"
  unfolding returning_after_quest_def returning_after_optin_eq
  by (simp add: reactor_defs aggregator_defs example_defs string_defs)


lemma update_user_level_role_synchronizes:
  assumes found: "get_guild s g = Found gd" "get_member gd u = Found rs"
    and perm: "bot_can_manage_roles gd"
    and cons: "member_roles_consistent gd u"
    and range: "1 \<le> n" "n \<le> 10"
  shows "\<exists>new. role_name new = level_role_name n
           \<and> held_roles (update_user_level_role s u g old_level n) g u =
               filter (\<lambda>x. \<not> stale_level_role (level_role_name n) x) rs
               @ (if role_in new (filter (\<lambda>x. \<not> stale_level_role (level_role_name n) x) rs)
                  then [] else [new])"
proof -
  from sync_level_role_roles [OF perm found(2) cons range] obtain new where
    new: "role_name new = level_role_name n"
      "get_member (sync_level_role gd u n) u =
         Found (filter (\<lambda>x. \<not> stale_level_role (level_role_name n) x) rs
                @ (if role_in new (filter (\<lambda>x. \<not> stale_level_role (level_role_name n) x) rs)
                   then [] else [new]))"
    by blast
  have "get_guild (update_user_level_role s u g old_level n) g = Found (sync_level_role gd u n)"
    by (simp add: update_user_level_role_found [OF found])
  from held_roles_found [OF this new(2)] new(1) show ?thesis
    by blast
qed

text \<open>
  Claim C2, as the code has it. Take a user whose guild and member are found, with
  consistent role state and unique role names, the bot permitted to manage roles, the
  store connected and no task pending.

  The synchronizer \<open>update_user_level_role\<close>, for a target level from 1 to 10,
  removes every held role whose name starts with \<^verbatim>\<open>Level \<close> and differs from the
  target's name, and grants the role with the target's name unless the user holds it.

  After \<open>update_user_xp\<close> has completed (quest completion, manual adjustment), the
  returned level and the cached level are the level of the user's total XP. If that
  level differs from the level that was cached before, the user holds exactly one level
  role, the one named for it; if it equals the cached level, nothing is synchronized
  and the user's roles are as before. The same holds after
  \<open>check_and_update_level_roles\<close> (role gain) has completed.
\<close>

theorem level_marker_follows_level_change:
  assumes connected: "db_connection s = Some db"
    and idle: "tasks s = []"
    and found: "get_guild s g = Found gd" "get_member gd u = Found rs"
    and perm: "bot_can_manage_roles gd"
    and cons: "member_roles_consistent gd u" "unique_role_names gd"
  shows "(\<forall>old_level n. 1 \<le> n \<and> n \<le> 10 \<longrightarrow>
            (\<exists>new. role_name new = level_role_name n
               \<and> held_roles (update_user_level_role s u g old_level n) g u =
                   filter (\<lambda>x. \<not> stale_level_role (level_role_name n) x) rs
                   @ (if role_in new (filter (\<lambda>x. \<not> stale_level_role (level_role_name n) x) rs)
                      then [] else [new])))
       \<and> snd (fst (update_user_xp s u g c))
           = calculate_level (total_xp (completed_ledger_update s u g c) u g)
       \<and> cached_level (completed_ledger_update s u g c) u g
           = calculate_level (total_xp (completed_ledger_update s u g c) u g)
       \<and> (cached_level s u g \<noteq> calculate_level (total_xp (completed_ledger_update s u g c) u g) \<longrightarrow>
            (\<exists>marker. held_level_roles (completed_ledger_update s u g c) g u = [marker]
               \<and> role_name marker =
                   level_role_name (calculate_level (total_xp (completed_ledger_update s u g c) u g))))
       \<and> (cached_level s u g = calculate_level (total_xp (completed_ledger_update s u g c) u g) \<longrightarrow>
            held_roles (completed_ledger_update s u g c) g u = rs)
       \<and> total_xp (completed_level_recompute s u g) u g = total_xp s u g
       \<and> cached_level (completed_level_recompute s u g) u g
           = calculate_level (total_xp (completed_level_recompute s u g) u g)
       \<and> (cached_level s u g \<noteq> calculate_level (total_xp (completed_level_recompute s u g) u g) \<longrightarrow>
            (\<exists>marker. held_level_roles (completed_level_recompute s u g) g u = [marker]
               \<and> role_name marker =
                   level_role_name (calculate_level (total_xp (completed_level_recompute s u g) u g))))
       \<and> (cached_level s u g = calculate_level (total_xp (completed_level_recompute s u g) u g) \<longrightarrow>
            held_roles (completed_level_recompute s u g) g u = rs)"
proof -
  note ledger = ledger_update_completed [OF connected idle found perm cons, of c]
  note recompute = level_recompute_completed [OF connected idle found perm cons]
  have sync: "\<forall>old_level n. 1 \<le> n \<and> n \<le> 10 \<longrightarrow>
            (\<exists>new. role_name new = level_role_name n
               \<and> held_roles (update_user_level_role s u g old_level n) g u =
                   filter (\<lambda>x. \<not> stale_level_role (level_role_name n) x) rs
                   @ (if role_in new (filter (\<lambda>x. \<not> stale_level_role (level_role_name n) x) rs)
                      then [] else [new]))"
    using update_user_level_role_synchronizes [OF found perm cons(1)] by blast
  have l1: "snd (fst (update_user_xp s u g c))
           = calculate_level (total_xp (completed_ledger_update s u g c) u g)"
    by (rule ledger(1))
  have l2: "cached_level (completed_ledger_update s u g c) u g
           = calculate_level (total_xp (completed_ledger_update s u g c) u g)"
    using ledger(1,2) by simp
  have l3: "\<exists>marker. held_level_roles (completed_ledger_update s u g c) g u = [marker]
               \<and> role_name marker =
                   level_role_name (calculate_level (total_xp (completed_ledger_update s u g c) u g))"
    if "cached_level s u g \<noteq> calculate_level (total_xp (completed_ledger_update s u g c) u g)"
    using ledger(3) that unfolding l1 [symmetric] by simp
  have l4: "held_roles (completed_ledger_update s u g c) g u = rs"
    if "cached_level s u g = calculate_level (total_xp (completed_ledger_update s u g c) u g)"
    using ledger(4) that unfolding l1 [symmetric] by simp
  have r1: "total_xp (completed_level_recompute s u g) u g = total_xp s u g"
    by (rule recompute(1))
  have r2: "cached_level (completed_level_recompute s u g) u g
           = calculate_level (total_xp (completed_level_recompute s u g) u g)"
    using recompute(2) r1 by simp
  have r3: "\<exists>marker. held_level_roles (completed_level_recompute s u g) g u = [marker]
               \<and> role_name marker =
                   level_role_name (calculate_level (total_xp (completed_level_recompute s u g) u g))"
    if "cached_level s u g \<noteq> calculate_level (total_xp (completed_level_recompute s u g) u g)"
    using recompute(3) that unfolding r1 by simp
  have r4: "held_roles (completed_level_recompute s u g) g u = rs"
    if "cached_level s u g = calculate_level (total_xp (completed_level_recompute s u g) u g)"
    using recompute(4) that unfolding r1 by simp
  from sync l1 l2 l3 l4 r1 r2 r3 r4 show ?thesis
    by blast
qed

lemma example_state_idle: "tasks example_state = []"
  by (simp add: example_defs)

lemma example_ledger_update:
  "cached_level example_state 7 1 = 1"
  "snd (fst (update_user_xp example_state 7 1 50)) = 2"
  by (simp_all add: cached_level_def update_user_xp_def aggregator_defs example_defs string_defs)

theorem level_marker_follows_level_change_witness:
  "db_connection example_state = Some example_db
   \<and> tasks example_state = []
   \<and> bot_can_manage_roles example_guild
   \<and> member_roles_consistent example_guild 7 \<and> unique_role_names example_guild
   \<and> cached_level example_state 7 1 = 1
   \<and> calculate_level (total_xp (completed_ledger_update example_state 7 1 50) 7 1) = 2
   \<and> cached_level (completed_ledger_update example_state 7 1 50) 7 1 = 2
   \<and> map role_name (held_level_roles (completed_ledger_update example_state 7 1 50) 1 7)
       = [''Level 2'']"
proof -
  note inst = level_marker_follows_level_change
      [OF example_state_user_7(1) example_state_idle example_state_readable
          example_guild_consistent(1) example_guild_consistent(3) example_guild_consistent(4),
       of 50]
  from inst example_ledger_update(2)
  have lvl: "calculate_level (total_xp (completed_ledger_update example_state 7 1 50) 7 1) = 2"
    by simp
  from inst lvl
  have cached: "cached_level (completed_ledger_update example_state 7 1 50) 7 1 = 2"
    by simp
  from inst lvl example_ledger_update(1)
  have "\<exists>marker. held_level_roles (completed_ledger_update example_state 7 1 50) 1 7 = [marker]
           \<and> role_name marker = level_role_name 2"
    by simp
  then have names: "map role_name (held_level_roles (completed_ledger_update example_state 7 1 50) 1 7)
       = [''Level 2'']"
    by (auto simp add: string_defs)
  from lvl cached names example_state_user_7(1) example_state_idle example_guild_consistent
    example_ledger_update(1)
  show ?thesis
    by simp
qed

text \<open>
  Claim C2 as stated fails on the code. The returning user (ledger: 60 XP, cached
  level 2, no level role) opts in and is granted \<^verbatim>\<open>Level 1\<close>; the level of the total
  XP, 60, is 1. Completing the 50 XP quest raises the total to 110 and the level to 2;
  the freshly computed level equals the cached level, so no synchronization is
  scheduled, and after the operation has completed the user still holds \<^verbatim>\<open>Level 1\<close>
  as the only level role, not \<^verbatim>\<open>Level 2\<close>.
\<close>

theorem level_marker_counterexample:
  "held_level_roles returning_after_optin 1 7 = [level_1_role]
   \<and> total_xp returning_after_optin 7 1 = 60
   \<and> calculate_level (total_xp returning_after_optin 7 1) = 1
   \<and> cached_level returning_after_optin 7 1 = 2
   \<and> tasks returning_after_optin = []
   \<and> total_xp returning_after_quest 7 1 = 110
   \<and> calculate_level (total_xp returning_after_quest 7 1) = 2
   \<and> tasks returning_after_quest = []
   \<and> held_level_roles returning_after_quest 1 7 = [level_1_role]
   \<and> role_name level_1_role = ''Level 1''
   \<and> level_role_name (calculate_level (total_xp returning_after_quest 7 1)) = ''Level 2''"
proof -
  have a: "held_level_roles returning_after_optin 1 7 = [level_1_role]"
    "total_xp returning_after_optin 7 1 = 60"
    "cached_level returning_after_optin 7 1 = 2"
    "tasks returning_after_optin = []"
    unfolding returning_after_optin_eq
    by (simp_all add: held_level_roles_def held_roles_def is_level_role_def member_roles_def
        total_xp_def cached_level_def aggregator_defs example_defs string_defs)
  have b: "held_level_roles returning_after_quest 1 7 = [level_1_role]"
    "total_xp returning_after_quest 7 1 = 110"
    "tasks returning_after_quest = []"
    unfolding returning_after_quest_eq
    by (simp_all add: held_level_roles_def held_roles_def is_level_role_def member_roles_def
        total_xp_def aggregator_defs example_defs string_defs)
  have c: "calculate_level 60 = 1" "calculate_level 110 = 2"
    by (simp_all add: calculate_level_def calculate_level_cases)
  have d: "role_name level_1_role = ''Level 1''" "level_role_name 2 = ''Level 2''"
    by (simp_all add: example_defs string_defs)
  from a b c d show ?thesis
    by simp
qed

end
